theory Spec2Isabelle
  imports Main "HOL-Library.Word" "HOL-Library.Monad_Syntax"
begin

unbundle bit_operations_syntax

section \<open>CleanQ: descriptor queues for zero-copy buffer exchange\<close>

text \<open>
  A shallow embedding of the CleanQ library: the region pool and the frontend
  (\<^verbatim>\<open>region_pool.c\<close>, \<^verbatim>\<open>queue_interface.c\<close>), the FF backend
  (\<^verbatim>\<open>ffq_impl.h\<close>, \<^verbatim>\<open>ff_queue.c\<close>), the IPC backend (\<^verbatim>\<open>ipc_queue.c\<close>), the
  loopback backend (\<^verbatim>\<open>loopback_queue.c\<close>) and the debug wrapper
  (\<^verbatim>\<open>debug_queue.c\<close>).

  Conventions.
  \<^item> C integers are machine words: \<^verbatim>\<open>uint64_t\<close>, \<^verbatim>\<open>size_t\<close> and \<^verbatim>\<open>genoffset_t\<close> are
    \<^typ>\<open>64 word\<close>, \<^verbatim>\<open>regionid_t\<close> is \<^typ>\<open>32 word\<close>, \<^verbatim>\<open>uint16_t\<close> is \<^typ>\<open>16 word\<close>;
    \<open>+\<close> and \<open>-\<close> wrap around as in C.
  \<^item> A function that can leave the defined behaviour of C (a failed \<^verbatim>\<open>assert\<close>, a
    dereference of \<^verbatim>\<open>NULL\<close> or of a freed node, an access outside an array or outside
    the shared mapping, a division by zero) or that can loop forever returns an
    \<open>option\<close>: \<open>None\<close> means that the call does not return normally.
  \<^item> A call that returns yields the \<^verbatim>\<open>errval_t\<close> and the updated objects. Out
    parameters of a dequeue are returned as \<open>Inr buf\<close>; an error return is \<open>Inl err\<close>.
  \<^item> Memory allocation (\<^verbatim>\<open>calloc\<close>, \<^verbatim>\<open>slab_alloc\<close>) always succeeds, and so do the calls
    of the operating system that set up the shared memory of the IPC backend.
  \<^item> Record fields carry a prefix, since Isabelle field names are global constants
    (\<^verbatim>\<open>length\<close>, \<^verbatim>\<open>size\<close> and \<^verbatim>\<open>offset\<close> occur in several structs).
\<close>

subsection \<open>Basic types (\<^verbatim>\<open>cleanq.h\<close>)\<close>

type_synonym regionid_t = "32 word"
type_synonym genoffset_t = "64 word"

datatype errval_t =
    CLEANQ_ERR_OK
  | CLEANQ_ERR_INIT_QUEUE
  | CLEANQ_ERR_BUFFER_ID
  | CLEANQ_ERR_BUFFER_NOT_IN_REGION
  | CLEANQ_ERR_BUFFER_ALREADY_IN_USE
  | CLEANQ_ERR_INVALID_BUFFER_ARGS
  | CLEANQ_ERR_INVALID_REGION_ID
  | CLEANQ_ERR_REGION_DESTROY
  | CLEANQ_ERR_INVALID_REGION_ARGS
  | CLEANQ_ERR_QUEUE_EMPTY
  | CLEANQ_ERR_QUEUE_FULL
  | CLEANQ_ERR_BUFFER_NOT_IN_USE
  | CLEANQ_ERR_MALLOC_FAIL

definition err_is_ok :: "errval_t \<Rightarrow> bool" where
  "err_is_ok err = (err = CLEANQ_ERR_OK)"

definition err_is_fail :: "errval_t \<Rightarrow> bool" where
  "err_is_fail err = (err \<noteq> CLEANQ_ERR_OK)"

record capref =
  cap_vaddr :: "64 word"
  cap_paddr :: "64 word"
  cap_len :: "64 word"

record cleanq_buf =
  buf_offset :: genoffset_t
  buf_length :: genoffset_t
  buf_valid_data :: genoffset_t
  buf_valid_length :: genoffset_t
  buf_flags :: "64 word"
  buf_rid :: regionid_t

subsection \<open>Region pool (\<^verbatim>\<open>region_pool.c\<close>)\<close>

text \<open>\<^verbatim>\<open>struct region\<close>; the \<^verbatim>\<open>cap\<close> pointer is never read and is left out.\<close>

record region =
  region_id :: regionid_t
  region_base_addr :: "64 word"
  region_len :: "64 word"

text \<open>\<^verbatim>\<open>struct region_pool\<close>; \<open>rp_pool\<close> is the array \<^verbatim>\<open>struct region **pool\<close>, an empty
  slot is \<open>None\<close>.\<close>

record region_pool =
  rp_size :: "16 word"
  rp_num_regions :: "16 word"
  rp_region_offset :: "64 word"
  rp_last_offset :: "16 word"
  rp_pool :: "region option list"

definition INIT_POOL_SIZE :: "16 word" where
  "INIT_POOL_SIZE = 16"

text \<open>\<^verbatim>\<open>region_pool_init\<close>; the argument stands for \<^verbatim>\<open>rand() >> 12\<close>.\<close>

definition region_pool_init :: "64 word \<Rightarrow> region_pool" where
  "region_pool_init rnd =
     \<lparr>rp_size = INIT_POOL_SIZE, rp_num_regions = 0, rp_region_offset = rnd,
      rp_last_offset = 0, rp_pool = replicate (unat INIT_POOL_SIZE) None\<rparr>"

text \<open>The slot index \<^verbatim>\<open>region_id & (pool->size - 1)\<close>: \<^verbatim>\<open>size\<close> is promoted to
  \<^verbatim>\<open>int\<close> before the subtraction and converted to \<^verbatim>\<open>uint32_t\<close> for the conjunction.\<close>

definition slot_index :: "region_pool \<Rightarrow> regionid_t \<Rightarrow> nat" where
  "slot_index p rid = unat (rid AND (ucast (rp_size p) - 1))"

text \<open>A read of \<^verbatim>\<open>pool->pool[i]\<close>; outside the array it does not return.\<close>

definition pool_at :: "region_pool \<Rightarrow> nat \<Rightarrow> region option option" where
  "pool_at p i = (if i < length (rp_pool p) then Some (rp_pool p ! i) else None)"

text \<open>The copy loop of \<^verbatim>\<open>region_pool_grow\<close>: every old slot is dereferenced.\<close>

fun grow_copy :: "region option list \<Rightarrow> 16 word \<Rightarrow> region option list
    \<Rightarrow> region option list option" where
  "grow_copy [] new_size tmp = Some tmp"
| "grow_copy (None # rs) new_size tmp = None"
| "grow_copy (Some r # rs) new_size tmp =
     (let index = unat (ucast (region_id r AND (ucast new_size - 1)) :: 16 word)
      in if index < length tmp then grow_copy rs new_size (tmp[index := Some r]) else None)"

definition region_pool_grow :: "region_pool \<Rightarrow> (errval_t \<times> region_pool) option" where
  "region_pool_grow p =
     (let new_size = rp_size p * 2 in
      if length (rp_pool p) < unat (rp_size p) then None
      else
        case grow_copy (take (unat (rp_size p)) (rp_pool p)) new_size
               (replicate (unat new_size) None) of
          None \<Rightarrow> None
        | Some tmp \<Rightarrow>
            Some (CLEANQ_ERR_OK, p\<lparr>rp_pool := tmp, rp_size := new_size, rp_last_offset := 0\<rparr>))"

definition region_pool_add_region_with_id ::
    "region_pool \<Rightarrow> capref \<Rightarrow> regionid_t \<Rightarrow> (errval_t \<times> region_pool) option" where
  "region_pool_add_region_with_id p0 cap rid =
     (case (if \<not> (rp_num_regions p0 < rp_size p0) then region_pool_grow p0
            else Some (CLEANQ_ERR_OK, p0)) of
        None \<Rightarrow> None
      | Some (err, p) \<Rightarrow>
          if err_is_fail err then Some (err, p)
          else
            case pool_at p (slot_index p rid) of
              None \<Rightarrow> None
            | Some (Some region) \<Rightarrow> Some (CLEANQ_ERR_INVALID_REGION_ID, p)
            | Some None \<Rightarrow>
                Some (CLEANQ_ERR_OK,
                  p\<lparr>rp_pool := (rp_pool p)[slot_index p rid :=
                        Some \<lparr>region_id = rid, region_base_addr = cap_paddr cap,
                              region_len = cap_len cap\<rparr>],
                    rp_num_regions := rp_num_regions p + 1\<rparr>))"

definition region_pool_remove_region ::
    "region_pool \<Rightarrow> regionid_t \<Rightarrow> (errval_t \<times> region_pool) option" where
  "region_pool_remove_region p rid =
     (case pool_at p (slot_index p rid) of
        None \<Rightarrow> None
      | Some None \<Rightarrow> Some (CLEANQ_ERR_INVALID_REGION_ID, p)
      | Some (Some region) \<Rightarrow>
          Some (CLEANQ_ERR_OK,
            p\<lparr>rp_pool := (rp_pool p)[slot_index p rid := None],
              rp_num_regions := rp_num_regions p - 1\<rparr>))"

definition region_pool_buffer_check_bounds ::
    "region_pool \<Rightarrow> regionid_t \<Rightarrow> genoffset_t \<Rightarrow> genoffset_t \<Rightarrow> genoffset_t \<Rightarrow> genoffset_t
      \<Rightarrow> bool option" where
  "region_pool_buffer_check_bounds p rid offset len valid_data valid_length =
     (case pool_at p (slot_index p rid) of
        None \<Rightarrow> None
      | Some None \<Rightarrow> Some False
      | Some (Some region) \<Rightarrow>
          if len + offset > region_len region \<or> valid_data + valid_length > len
          then Some False
          else Some True)"

subsection \<open>The generic queue (\<^verbatim>\<open>cleanq_backend.h\<close>, \<^verbatim>\<open>queue_interface.c\<close>)\<close>

text \<open>
  \<^verbatim>\<open>struct cleanq\<close> is the first member of every backend struct. The record holds
  the generic members and, in \<open>backend\<close>, the remaining members of the backend
  struct. The two event callbacks return an \<^verbatim>\<open>errval_t\<close>; every invocation is
  appended to \<open>cb_trace\<close>, which makes an invocation visible in the state. The
  function table \<^verbatim>\<open>q->f\<close> is the separate record \<open>cleanq_f\<close>.
\<close>

datatype cb_event = CbRegister capref regionid_t | CbDeregister regionid_t

record 'b cleanq =
  pool :: region_pool
  callbacks_reg :: "(capref \<Rightarrow> regionid_t \<Rightarrow> errval_t) option"
  callbacks_dereg :: "(regionid_t \<Rightarrow> errval_t) option"
  cb_trace :: "cb_event list"
  backend :: 'b

record 'b cleanq_f =
  enq :: "'b cleanq \<Rightarrow> regionid_t \<Rightarrow> genoffset_t \<Rightarrow> genoffset_t \<Rightarrow> genoffset_t \<Rightarrow> genoffset_t
            \<Rightarrow> 64 word \<Rightarrow> (errval_t \<times> 'b cleanq) option"
  deq :: "'b cleanq \<Rightarrow> ((errval_t + cleanq_buf) \<times> 'b cleanq) option"
  reg :: "'b cleanq \<Rightarrow> capref \<Rightarrow> regionid_t \<Rightarrow> (errval_t \<times> 'b cleanq) option"
  dereg :: "'b cleanq \<Rightarrow> regionid_t \<Rightarrow> (errval_t \<times> 'b cleanq) option"

text \<open>\<^verbatim>\<open>cleanq_init\<close>, with a new queue's callbacks unset (the struct is
  \<^verbatim>\<open>calloc\<close>ed).\<close>

definition cleanq_init :: "64 word \<Rightarrow> 'b \<Rightarrow> 'b cleanq" where
  "cleanq_init rnd b =
     \<lparr>pool = region_pool_init rnd, callbacks_reg = None, callbacks_dereg = None,
      cb_trace = [], backend = b\<rparr>"

definition cleanq_add_region ::
    "'b cleanq \<Rightarrow> capref \<Rightarrow> regionid_t \<Rightarrow> (errval_t \<times> 'b cleanq) option" where
  "cleanq_add_region q cap rid =
     (case region_pool_add_region_with_id (pool q) cap rid of
        None \<Rightarrow> None
      | Some (err, p) \<Rightarrow> Some (err, q\<lparr>pool := p\<rparr>))"

definition cleanq_remove_region ::
    "'b cleanq \<Rightarrow> regionid_t \<Rightarrow> (errval_t \<times> 'b cleanq) option" where
  "cleanq_remove_region q rid =
     (case region_pool_remove_region (pool q) rid of
        None \<Rightarrow> None
      | Some (err, p) \<Rightarrow> Some (err, q\<lparr>pool := p\<rparr>))"

definition cleanq_enqueue ::
    "'b cleanq_f \<Rightarrow> 'b cleanq \<Rightarrow> regionid_t \<Rightarrow> genoffset_t \<Rightarrow> genoffset_t \<Rightarrow> genoffset_t
      \<Rightarrow> genoffset_t \<Rightarrow> 64 word \<Rightarrow> (errval_t \<times> 'b cleanq) option" where
  "cleanq_enqueue f q rid offset len valid_data valid_length misc_flags =
     (case region_pool_buffer_check_bounds (pool q) rid offset len valid_data valid_length of
        None \<Rightarrow> None
      | Some False \<Rightarrow> Some (CLEANQ_ERR_INVALID_BUFFER_ARGS, q)
      | Some True \<Rightarrow> enq f q rid offset len valid_data valid_length misc_flags)"

definition cleanq_dequeue ::
    "'b cleanq_f \<Rightarrow> 'b cleanq \<Rightarrow> ((errval_t + cleanq_buf) \<times> 'b cleanq) option" where
  "cleanq_dequeue f q =
     (case deq f q of
        None \<Rightarrow> None
      | Some (Inl err, q') \<Rightarrow> Some (Inl err, q')
      | Some (Inr b, q') \<Rightarrow>
          (case region_pool_buffer_check_bounds (pool q') (buf_rid b) (buf_offset b)
                  (buf_length b) (buf_valid_data b) (buf_valid_length b) of
             None \<Rightarrow> None
           | Some False \<Rightarrow> Some (Inl CLEANQ_ERR_INVALID_BUFFER_ARGS, q')
           | Some True \<Rightarrow> Some (Inr b, q')))"

subsection \<open>Loopback backend (\<^verbatim>\<open>loopback_queue.c\<close>)\<close>

definition LOOPBACK_QUEUE_SIZE :: "64 word" where
  "LOOPBACK_QUEUE_SIZE = 64"

record cleanq_loopbackq =
  lq_queue :: "cleanq_buf list"
  lq_head :: "64 word"
  lq_tail :: "64 word"
  lq_num_ele :: "64 word"

definition loopback_enqueue ::
    "cleanq_loopbackq cleanq \<Rightarrow> regionid_t \<Rightarrow> genoffset_t \<Rightarrow> genoffset_t \<Rightarrow> genoffset_t
      \<Rightarrow> genoffset_t \<Rightarrow> 64 word \<Rightarrow> (errval_t \<times> cleanq_loopbackq cleanq) option" where
  "loopback_enqueue q rid offset len valid_data valid_length flags =
     (let lq = backend q in
      if lq_num_ele lq = LOOPBACK_QUEUE_SIZE then Some (CLEANQ_ERR_QUEUE_FULL, q)
      else if \<not> unat (lq_head lq) < length (lq_queue lq) then None
      else Some (CLEANQ_ERR_OK,
        q\<lparr>backend := lq\<lparr>
            lq_queue := (lq_queue lq)[unat (lq_head lq) :=
               \<lparr>buf_offset = offset, buf_length = len, buf_valid_data = valid_data,
                buf_valid_length = valid_length, buf_flags = flags, buf_rid = rid\<rparr>],
            lq_head := (lq_head lq + 1) mod LOOPBACK_QUEUE_SIZE,
            lq_num_ele := lq_num_ele lq + 1\<rparr>\<rparr>))"

definition loopback_dequeue ::
    "cleanq_loopbackq cleanq \<Rightarrow> ((errval_t + cleanq_buf) \<times> cleanq_loopbackq cleanq) option" where
  "loopback_dequeue q =
     (let lq = backend q in
      if lq_num_ele lq = 0 then Some (Inl CLEANQ_ERR_QUEUE_EMPTY, q)
      else if \<not> unat (lq_tail lq) < length (lq_queue lq) then None
      else Some (Inr (lq_queue lq ! unat (lq_tail lq)),
        q\<lparr>backend := lq\<lparr>
            lq_tail := (lq_tail lq + 1) mod LOOPBACK_QUEUE_SIZE,
            lq_num_ele := lq_num_ele lq - 1\<rparr>\<rparr>))"

definition loopback_register ::
    "cleanq_loopbackq cleanq \<Rightarrow> capref \<Rightarrow> regionid_t
      \<Rightarrow> (errval_t \<times> cleanq_loopbackq cleanq) option" where
  "loopback_register q cap rid = Some (CLEANQ_ERR_OK, q)"

definition loopback_deregister ::
    "cleanq_loopbackq cleanq \<Rightarrow> regionid_t \<Rightarrow> (errval_t \<times> cleanq_loopbackq cleanq) option" where
  "loopback_deregister q rid = Some (CLEANQ_ERR_OK, q)"

definition loopback_f :: "cleanq_loopbackq cleanq_f" where
  "loopback_f = \<lparr>enq = loopback_enqueue, deq = loopback_dequeue,
                  reg = loopback_register, dereg = loopback_deregister\<rparr>"

text \<open>\<^verbatim>\<open>loopback_queue_create\<close>: the struct is \<^verbatim>\<open>calloc\<close>ed, so the descriptor array
  is all zero.\<close>

definition zero_buf :: cleanq_buf where
  "zero_buf = \<lparr>buf_offset = 0, buf_length = 0, buf_valid_data = 0, buf_valid_length = 0,
                buf_flags = 0, buf_rid = 0\<rparr>"

definition loopback_queue_create :: "64 word \<Rightarrow> cleanq_loopbackq cleanq" where
  "loopback_queue_create rnd =
     cleanq_init rnd
       \<lparr>lq_queue = replicate (unat LOOPBACK_QUEUE_SIZE) zero_buf,
        lq_head = 0, lq_tail = 0, lq_num_ele = 0\<rparr>"

subsection \<open>Scenario state of the frontend\<close>

text \<open>A loopback queue whose pool holds one region, of 4096 bytes, under the id 5.\<close>

definition alias_q :: "cleanq_loopbackq cleanq" where
  "alias_q = (loopback_queue_create 0)\<lparr>pool := (region_pool_init 0)\<lparr>
       rp_pool := (replicate 16 None)
          [5 := Some \<lparr>region_id = 5, region_base_addr = 0, region_len = 4096\<rparr>],
       rp_num_regions := 1\<rparr>\<rparr>"

subsection \<open>Inline region commands (\<^verbatim>\<open>ff_queue.c\<close>, \<^verbatim>\<open>ipc_queue.c\<close>)\<close>

text \<open>
  Both shared-memory backends carry the same two static handlers (the IPC backend
  names the second one \<^verbatim>\<open>handle_register_decommand\<close>). The user callback is reached
  only when the pool operation has succeeded.
\<close>

definition handle_register_command ::
    "'b cleanq \<Rightarrow> capref \<Rightarrow> regionid_t \<Rightarrow> (errval_t \<times> 'b cleanq) option" where
  "handle_register_command q cap rid =
     (case cleanq_add_region q cap rid of
        None \<Rightarrow> None
      | Some (err, q') \<Rightarrow>
          if err_is_fail err then Some (err, q')
          else
            case callbacks_reg q' of
              Some cb \<Rightarrow> Some (cb cap rid, q'\<lparr>cb_trace := cb_trace q' @ [CbRegister cap rid]\<rparr>)
            | None \<Rightarrow> Some (CLEANQ_ERR_OK, q'))"

definition handle_deregister_command ::
    "'b cleanq \<Rightarrow> regionid_t \<Rightarrow> (errval_t \<times> 'b cleanq) option" where
  "handle_deregister_command q rid =
     (case cleanq_remove_region q rid of
        None \<Rightarrow> None
      | Some (err, q') \<Rightarrow>
          if err_is_fail err then Some (err, q')
          else
            case callbacks_dereg q' of
              Some cb \<Rightarrow> Some (cb rid, q'\<lparr>cb_trace := cb_trace q' @ [CbDeregister rid]\<rparr>)
            | None \<Rightarrow> Some (CLEANQ_ERR_OK, q'))"

definition handle_register_decommand ::
    "'b cleanq \<Rightarrow> regionid_t \<Rightarrow> (errval_t \<times> 'b cleanq) option" where
  "handle_register_decommand q rid = handle_deregister_command q rid"

subsection \<open>FF channel (\<^verbatim>\<open>ffq_impl.h\<close>)\<close>

definition FFQ_SLOT_EMPTY :: "64 word" where
  "FFQ_SLOT_EMPTY = - 1"

text \<open>\<^verbatim>\<open>struct ffq_slot\<close>: the eight words \<^verbatim>\<open>data[0]\<close> .. \<^verbatim>\<open>data[7]\<close> of a cache line.\<close>

record ffq_slot =
  data0 :: "64 word"
  data1 :: "64 word"
  data2 :: "64 word"
  data3 :: "64 word"
  data4 :: "64 word"
  data5 :: "64 word"
  data6 :: "64 word"
  data7 :: "64 word"

datatype ffq_direction_t = FFQ_DIRECTION_SEND | FFQ_DIRECTION_RECV

text \<open>\<^verbatim>\<open>struct ffq_chan\<close>; \<open>chan_slots\<close> is the memory that \<^verbatim>\<open>slots\<close> points to, as this
  endpoint sees it.\<close>

record ffq_chan =
  chan_slots :: "ffq_slot list"
  chan_size :: "16 word"
  chan_pos :: "16 word"
  chan_direction :: ffq_direction_t

text \<open>The initialisation loop \<^verbatim>\<open>for (i = 0; i < slots && init; i++)\<close>; a slot beyond
  the buffer is outside the mapping.\<close>

definition ffq_init_slots :: "ffq_slot list \<Rightarrow> 16 word \<Rightarrow> bool \<Rightarrow> ffq_slot list option" where
  "ffq_init_slots buf slots init =
     (if \<not> init then Some buf
      else if length buf < unat slots then None
      else Some (map (\<lambda>s. s\<lparr>data0 := FFQ_SLOT_EMPTY\<rparr>) (take (unat slots) buf)
                 @ drop (unat slots) buf))"

definition ffq_impl_init_tx :: "ffq_slot list \<Rightarrow> 16 word \<Rightarrow> bool \<Rightarrow> ffq_chan option" where
  "ffq_impl_init_tx buf slots init =
     (case ffq_init_slots buf slots init of
        None \<Rightarrow> None
      | Some b \<Rightarrow> Some \<lparr>chan_slots = b, chan_size = slots, chan_pos = 0,
                         chan_direction = FFQ_DIRECTION_SEND\<rparr>)"

definition ffq_impl_init_rx :: "ffq_slot list \<Rightarrow> 16 word \<Rightarrow> bool \<Rightarrow> ffq_chan option" where
  "ffq_impl_init_rx buf slots init =
     (case ffq_init_slots buf slots init of
        None \<Rightarrow> None
      | Some b \<Rightarrow> Some \<lparr>chan_slots = b, chan_size = slots, chan_pos = 0,
                         chan_direction = FFQ_DIRECTION_RECV\<rparr>)"

text \<open>\<^verbatim>\<open>ffq_impl_get_slot\<close> followed by a read of the slot.\<close>

definition ffq_impl_get_slot :: "ffq_chan \<Rightarrow> ffq_slot option" where
  "ffq_impl_get_slot q =
     (if unat (chan_pos q) < length (chan_slots q)
      then Some (chan_slots q ! unat (chan_pos q)) else None)"

definition ffq_impl_can_send :: "ffq_chan \<Rightarrow> bool option" where
  "ffq_impl_can_send q =
     (if chan_direction q \<noteq> FFQ_DIRECTION_SEND then None
      else case ffq_impl_get_slot q of
             None \<Rightarrow> None
           | Some slot \<Rightarrow> Some (data0 slot = FFQ_SLOT_EMPTY))"

text \<open>\<^verbatim>\<open>ffq_impl_send\<close>: the five data words, the assertion on \<^verbatim>\<open>arg1\<close>, word 0, and
  then \<^verbatim>\<open>q->pos = q->pos % q->size\<close>.\<close>

definition ffq_impl_send ::
    "ffq_chan \<Rightarrow> 64 word \<Rightarrow> 64 word \<Rightarrow> 64 word \<Rightarrow> 64 word \<Rightarrow> 64 word \<Rightarrow> 64 word
      \<Rightarrow> (bool \<times> ffq_chan) option" where
  "ffq_impl_send q arg1 arg2 arg3 arg4 arg5 arg6 =
     (case ffq_impl_can_send q of
        None \<Rightarrow> None
      | Some False \<Rightarrow> Some (False, q)
      | Some True \<Rightarrow>
          (case ffq_impl_get_slot q of
             None \<Rightarrow> None
           | Some s \<Rightarrow>
               if arg1 = FFQ_SLOT_EMPTY then None
               else if chan_size q = 0 then None
               else Some (True,
                 q\<lparr>chan_slots := (chan_slots q)[unat (chan_pos q) :=
                        s\<lparr>data1 := arg2, data2 := arg3, data3 := arg4, data4 := arg5,
                          data5 := arg6, data0 := arg1\<rparr>],
                   chan_pos := chan_pos q mod chan_size q\<rparr>)))"

definition ffq_impl_can_recv :: "ffq_chan \<Rightarrow> bool option" where
  "ffq_impl_can_recv q =
     (if chan_direction q \<noteq> FFQ_DIRECTION_RECV then None
      else case ffq_impl_get_slot q of
             None \<Rightarrow> None
           | Some slot \<Rightarrow> Some (data0 slot \<noteq> FFQ_SLOT_EMPTY))"

text \<open>\<^verbatim>\<open>ffq_impl_recv\<close>: the six words copied out (\<open>None\<close> in the first component when
  nothing was received), word 0 reset, and then \<^verbatim>\<open>q->pos = q->pos % q->size\<close>.\<close>

definition ffq_impl_recv ::
    "ffq_chan \<Rightarrow> ((64 word \<times> 64 word \<times> 64 word \<times> 64 word \<times> 64 word \<times> 64 word) option
                   \<times> ffq_chan) option" where
  "ffq_impl_recv q =
     (case ffq_impl_can_recv q of
        None \<Rightarrow> None
      | Some False \<Rightarrow> Some (None, q)
      | Some True \<Rightarrow>
          (case ffq_impl_get_slot q of
             None \<Rightarrow> None
           | Some s \<Rightarrow>
               if chan_size q = 0 then None
               else Some (Some (data0 s, data1 s, data2 s, data3 s, data4 s, data5 s),
                 q\<lparr>chan_slots := (chan_slots q)[unat (chan_pos q) :=
                        s\<lparr>data0 := FFQ_SLOT_EMPTY\<rparr>],
                   chan_pos := chan_pos q mod chan_size q\<rparr>)))"

subsection \<open>FF backend (\<^verbatim>\<open>ff_queue.c\<close>)\<close>

definition FFQ_DEFAULT_SIZE :: "16 word" where
  "FFQ_DEFAULT_SIZE = 64"

definition FFQ_CMD_REGISTER :: "64 word" where
  "FFQ_CMD_REGISTER = 1"

definition FFQ_CMD_DEREGISTER :: "64 word" where
  "FFQ_CMD_DEREGISTER = 2"

record cleanq_ffq =
  txq :: ffq_chan
  rxq :: ffq_chan

text \<open>\<^verbatim>\<open>ff_enqueue\<close>: \<^verbatim>\<open>return sent ? CLEANQ_ERR_QUEUE_FULL : CLEANQ_ERR_OK\<close>.\<close>

definition ff_enqueue ::
    "cleanq_ffq cleanq \<Rightarrow> regionid_t \<Rightarrow> genoffset_t \<Rightarrow> genoffset_t \<Rightarrow> genoffset_t \<Rightarrow> genoffset_t
      \<Rightarrow> 64 word \<Rightarrow> (errval_t \<times> cleanq_ffq cleanq) option" where
  "ff_enqueue q rid offset len valid_data valid_length misc_flags =
     (case ffq_impl_send (txq (backend q)) (ucast rid) offset len valid_data valid_length
             misc_flags of
        None \<Rightarrow> None
      | Some (sent, tx) \<Rightarrow>
          Some (if sent then CLEANQ_ERR_QUEUE_FULL else CLEANQ_ERR_OK,
                q\<lparr>backend := (backend q)\<lparr>txq := tx\<rparr>\<rparr>))"

text \<open>The number of occupied slots of a channel: it decreases with every receive,
  which bounds the recursion of \<^verbatim>\<open>ff_dequeue\<close>.\<close>

definition occupied_slots :: "ffq_chan \<Rightarrow> nat" where
  "occupied_slots ch = length (filter (\<lambda>s. data0 s \<noteq> FFQ_SLOT_EMPTY) (chan_slots ch))"

text \<open>\<^verbatim>\<open>ff_dequeue\<close>. The command code travels in the flags word (\<^verbatim>\<open>arg6\<close>); the region id
  is read back from word 0: the source passes its \<^verbatim>\<open>regionid_t *\<close> as a \<^verbatim>\<open>uint64_t *\<close>, and
  \<^verbatim>\<open>*region_id\<close> then reads the low 32 bits of the word. After a command the function
  calls itself again.\<close>

function ff_dequeue ::
    "cleanq_ffq cleanq \<Rightarrow> ((errval_t + cleanq_buf) \<times> cleanq_ffq cleanq) option" where
  "ff_dequeue q =
     (case ffq_impl_recv (rxq (backend q)) of
        None \<Rightarrow> None
      | Some (None, rx) \<Rightarrow> Some (Inl CLEANQ_ERR_QUEUE_EMPTY, q)
      | Some (Some (arg1, arg2, arg3, arg4, arg5, arg6), rx) \<Rightarrow>
          (let q1 = q\<lparr>backend := (backend q)\<lparr>rxq := rx\<rparr>\<rparr>;
               region_id = (ucast arg1 :: regionid_t)
           in
             if arg6 = 0 then
               Some (Inr \<lparr>buf_offset = arg2, buf_length = arg3, buf_valid_data = arg4,
                          buf_valid_length = arg5, buf_flags = arg6, buf_rid = region_id\<rparr>, q1)
             else
               case (if arg6 = FFQ_CMD_REGISTER
                     then handle_register_command q1
                            \<lparr>cap_vaddr = arg2, cap_paddr = arg4, cap_len = arg3\<rparr> region_id
                     else handle_deregister_command q1 region_id) of
                 None \<Rightarrow> None
               | Some (err, q2) \<Rightarrow> ff_dequeue q2))"
  by pat_completeness auto
termination
proof (relation "measure (\<lambda>q. occupied_slots (rxq (backend q)))", simp, goal_cases)
  case (1 q x2 x rx msg arg1 r1 arg2 r2 arg3 r3 arg4 r4 arg5 arg6 q1 region_id res err q2)
  have filter_upd: "length (filter P (xs[i := v])) < length (filter P xs)"
    if "i < length xs" "P (xs ! i)" "\<not> P v" for P :: "ffq_slot \<Rightarrow> bool" and xs i v
  proof -
    have e: "xs = take i xs @ xs ! i # drop (Suc i) xs"
      using that(1) by (rule id_take_nth_drop)
    have "length (filter P xs) = length (filter P (take i xs @ xs ! i # drop (Suc i) xs))"
      by (rule arg_cong[where f="\<lambda>l. length (filter P l)", OF e])
    also have "\<dots> = length (filter P (take i xs)) + 1 + length (filter P (drop (Suc i) xs))"
      using that(2) by simp
    finally have a: "length (filter P xs) =
        length (filter P (take i xs)) + 1 + length (filter P (drop (Suc i) xs))" .
    have "xs[i := v] = take i xs @ v # drop (Suc i) xs"
      using that(1) by (rule upd_conv_take_nth_drop)
    then have "length (filter P (xs[i := v])) =
        length (filter P (take i xs)) + length (filter P (drop (Suc i) xs))"
      using that(3) by simp
    with a show ?thesis by simp
  qed
  let ?ch = "rxq (backend q)"
  have recv: "ffq_impl_recv ?ch = Some (Some msg, rx)"
    using 1(1,2,3) by simp
  have cr: "ffq_impl_can_recv ?ch = Some True"
    using recv unfolding ffq_impl_recv_def
    by (cases "ffq_impl_can_recv ?ch") (auto split: bool.splits)
  have inr: "unat (chan_pos ?ch) < length (chan_slots ?ch)"
    and occ: "data0 (chan_slots ?ch ! unat (chan_pos ?ch)) \<noteq> FFQ_SLOT_EMPTY"
    using cr unfolding ffq_impl_can_recv_def ffq_impl_get_slot_def
    by (simp_all split: if_splits)
  have rx: "chan_slots rx = (chan_slots ?ch)[unat (chan_pos ?ch) :=
      (chan_slots ?ch ! unat (chan_pos ?ch))\<lparr>data0 := FFQ_SLOT_EMPTY\<rparr>]"
    using recv cr inr unfolding ffq_impl_recv_def ffq_impl_get_slot_def
    by (auto split: if_splits)
  have dec: "occupied_slots rx < occupied_slots ?ch"
    unfolding occupied_slots_def rx
    by (rule filter_upd) (use inr occ in simp_all)
  have "backend q2 = backend (q\<lparr>backend := (backend q)\<lparr>rxq := rx\<rparr>\<rparr>)"
  proof (cases "arg6 = FFQ_CMD_REGISTER")
    case True
    then show ?thesis using 1
      by (auto simp: handle_register_command_def cleanq_add_region_def
          split: if_splits option.splits prod.splits)
  next
    case False
    then show ?thesis using 1
      by (auto simp: handle_deregister_command_def cleanq_remove_region_def
          split: if_splits option.splits prod.splits)
  qed
  then show ?case using dec by simp
qed

subsection \<open>Scenario states of the FF backend\<close>

definition empty_slot :: ffq_slot where
  "empty_slot = \<lparr>data0 = FFQ_SLOT_EMPTY, data1 = 0, data2 = 0, data3 = 0, data4 = 0,
                  data5 = 0, data6 = 0, data7 = 0\<rparr>"

definition zero_slot :: ffq_slot where
  "zero_slot = \<lparr>data0 = 0, data1 = 0, data2 = 0, data3 = 0, data4 = 0,
                 data5 = 0, data6 = 0, data7 = 0\<rparr>"

text \<open>An FF queue right after both channels were initialised over zeroed memory.\<close>

definition ffq_fresh :: "cleanq_ffq cleanq" where
  "ffq_fresh = cleanq_init 0
     \<lparr>txq = \<lparr>chan_slots = replicate 64 empty_slot, chan_size = FFQ_DEFAULT_SIZE,
              chan_pos = 0, chan_direction = FFQ_DIRECTION_SEND\<rparr>,
      rxq = \<lparr>chan_slots = replicate 64 empty_slot, chan_size = FFQ_DEFAULT_SIZE,
              chan_pos = 0, chan_direction = FFQ_DIRECTION_RECV\<rparr>\<rparr>"

text \<open>The slot that the enqueue of \<open>(rid 1, offset 0, length 2048, valid 0..2048,
  flags 0)\<close> writes.\<close>

definition sent_slot :: ffq_slot where
  "sent_slot = \<lparr>data0 = 1, data1 = 0, data2 = 2048, data3 = 0, data4 = 2048,
                 data5 = 0, data6 = 0, data7 = 0\<rparr>"

definition ffq_sent :: "cleanq_ffq cleanq" where
  "ffq_sent = ffq_fresh\<lparr>backend := (backend ffq_fresh)\<lparr>txq := (txq (backend ffq_fresh))
       \<lparr>chan_slots := (replicate 64 empty_slot)[0 := sent_slot]\<rparr>\<rparr>\<rparr>"

text \<open>The same queue with that message waiting in slot 0 of the receive channel.\<close>

definition ffq_pending :: "cleanq_ffq cleanq" where
  "ffq_pending = ffq_fresh\<lparr>backend := (backend ffq_fresh)\<lparr>rxq := (rxq (backend ffq_fresh))
       \<lparr>chan_slots := (replicate 64 empty_slot)[0 := sent_slot]\<rparr>\<rparr>\<rparr>"

subsection \<open>IPC backend (\<^verbatim>\<open>ipc_queue.c\<close>)\<close>

definition IPCQ_DEFAULT_SIZE :: nat where
  "IPCQ_DEFAULT_SIZE = 64"

definition IPCQ_MESSAGE_SIZE :: nat where
  "IPCQ_MESSAGE_SIZE = 64"

definition IPCQ_CHAN_SIZE :: nat where
  "IPCQ_CHAN_SIZE = IPCQ_DEFAULT_SIZE * IPCQ_MESSAGE_SIZE"

definition IPCQ_MEM_SIZE :: nat where
  "IPCQ_MEM_SIZE = 2 * IPCQ_CHAN_SIZE"

definition IPCQ_CMD_REGISTER :: "64 word" where
  "IPCQ_CMD_REGISTER = 1"

definition IPCQ_CMD_DEREGISTER :: "64 word" where
  "IPCQ_CMD_DEREGISTER = 2"

text \<open>\<^verbatim>\<open>struct ipcq_desc\<close>, 64 bytes.\<close>

record ipcq_desc =
  desc_seq :: "64 word"
  desc_rid :: regionid_t
  desc_pad :: "32 word"
  desc_offset :: genoffset_t
  desc_length :: genoffset_t
  desc_valid_data :: genoffset_t
  desc_valid_length :: genoffset_t
  desc_flags :: "64 word"
  desc_cmd :: "64 word"

definition zero_desc :: ipcq_desc where
  "zero_desc = \<lparr>desc_seq = 0, desc_rid = 0, desc_pad = 0, desc_offset = 0, desc_length = 0,
                 desc_valid_data = 0, desc_valid_length = 0, desc_flags = 0, desc_cmd = 0\<rparr>"

text \<open>
  The shared mapping is a list of 64-byte cells, cell \<open>i\<close> at the bytes
  \<open>[64 i, 64 i + 64)\<close>. A cell read through \<^verbatim>\<open>union ipcq_seqnum\<close> shows its first
  eight bytes as \<^verbatim>\<open>value\<close>: the word \<open>desc_seq\<close> of the cell. The pointers of
  \<^verbatim>\<open>struct cleanq_ipcq\<close> are byte offsets from \<^verbatim>\<open>rxtx_mem\<close>; all of them are multiples
  of 64. An access is defined when its cell lies inside the mapping.
\<close>

type_synonym ipc_mem = "ipcq_desc list"

definition mem_cell :: "ipc_mem \<Rightarrow> nat \<Rightarrow> ipcq_desc option" where
  "mem_cell mem a =
     (if a mod IPCQ_MESSAGE_SIZE = 0 \<and> a div IPCQ_MESSAGE_SIZE < length mem
      then Some (mem ! (a div IPCQ_MESSAGE_SIZE)) else None)"

definition mem_store :: "ipc_mem \<Rightarrow> nat \<Rightarrow> ipcq_desc \<Rightarrow> ipc_mem option" where
  "mem_store mem a d =
     (if a mod IPCQ_MESSAGE_SIZE = 0 \<and> a div IPCQ_MESSAGE_SIZE < length mem
      then Some (mem[a div IPCQ_MESSAGE_SIZE := d]) else None)"

text \<open>Read and write of \<^verbatim>\<open>ack->value\<close> for an ack pointer.\<close>

definition seqnum_value :: "ipc_mem \<Rightarrow> nat \<Rightarrow> 64 word option" where
  "seqnum_value mem a = map_option desc_seq (mem_cell mem a)"

definition seqnum_store :: "ipc_mem \<Rightarrow> nat \<Rightarrow> 64 word \<Rightarrow> ipc_mem option" where
  "seqnum_store mem a v =
     (case mem_cell mem a of
        None \<Rightarrow> None
      | Some c \<Rightarrow> mem_store mem a (c\<lparr>desc_seq := v\<rparr>))"

record cleanq_ipcq =
  ipcq_slots :: "64 word"
  rx_descs :: nat
  rx_seq :: "64 word"
  rx_seq_ack :: nat
  tx_descs :: nat
  tx_seq :: "64 word"
  tx_seq_ack :: nat

text \<open>\<^verbatim>\<open>&q->tx_descs[q->tx_seq % q->slots]\<close> and \<^verbatim>\<open>&q->rx_descs[q->rx_seq % q->slots]\<close>.\<close>

definition ipcq_get_tx_desc_head :: "cleanq_ipcq cleanq \<Rightarrow> nat option" where
  "ipcq_get_tx_desc_head q =
     (if ipcq_slots (backend q) = 0 then None
      else Some (tx_descs (backend q)
                 + IPCQ_MESSAGE_SIZE * unat (tx_seq (backend q) mod ipcq_slots (backend q))))"

definition ipcq_get_rx_desc_tail :: "cleanq_ipcq cleanq \<Rightarrow> nat option" where
  "ipcq_get_rx_desc_tail q =
     (if ipcq_slots (backend q) = 0 then None
      else Some (rx_descs (backend q)
                 + IPCQ_MESSAGE_SIZE * unat (rx_seq (backend q) mod ipcq_slots (backend q))))"

definition ipcq_can_send :: "cleanq_ipcq cleanq \<Rightarrow> ipc_mem \<Rightarrow> bool option" where
  "ipcq_can_send q mem =
     (case seqnum_value mem (tx_seq_ack (backend q)) of
        None \<Rightarrow> None
      | Some ack \<Rightarrow> Some (tx_seq (backend q) - ack < ipcq_slots (backend q)))"

definition ipcq_enqueue_internal ::
    "cleanq_ipcq cleanq \<Rightarrow> ipc_mem \<Rightarrow> regionid_t \<Rightarrow> genoffset_t \<Rightarrow> genoffset_t \<Rightarrow> genoffset_t
      \<Rightarrow> genoffset_t \<Rightarrow> 64 word \<Rightarrow> 64 word
      \<Rightarrow> (errval_t \<times> cleanq_ipcq cleanq \<times> ipc_mem) option" where
  "ipcq_enqueue_internal q mem rid offset len valid_data valid_length misc_flags cmd =
     (case ipcq_can_send q mem of
        None \<Rightarrow> None
      | Some False \<Rightarrow> Some (CLEANQ_ERR_QUEUE_FULL, q, mem)
      | Some True \<Rightarrow>
          (case ipcq_get_tx_desc_head q of
             None \<Rightarrow> None
           | Some head \<Rightarrow>
               (case mem_cell mem head of
                  None \<Rightarrow> None
                | Some d \<Rightarrow>
                    (case mem_store mem head
                            (d\<lparr>desc_rid := rid, desc_offset := offset, desc_length := len,
                               desc_valid_data := valid_data,
                               desc_valid_length := valid_length, desc_flags := misc_flags,
                               desc_cmd := cmd, desc_seq := tx_seq (backend q)\<rparr>) of
                       None \<Rightarrow> None
                     | Some mem' \<Rightarrow>
                         Some (CLEANQ_ERR_OK,
                               q\<lparr>backend := (backend q)\<lparr>tx_seq := tx_seq (backend q) + 1\<rparr>\<rparr>,
                               mem')))))"

definition ipcq_can_recv :: "cleanq_ipcq cleanq \<Rightarrow> ipc_mem \<Rightarrow> bool option" where
  "ipcq_can_recv q mem =
     (case ipcq_get_rx_desc_tail q of
        None \<Rightarrow> None
      | Some tail \<Rightarrow>
          (case mem_cell mem tail of
             None \<Rightarrow> None
           | Some d \<Rightarrow> Some (rx_seq (backend q) \<le> desc_seq d)))"

definition ipcq_enqueue ::
    "cleanq_ipcq cleanq \<Rightarrow> ipc_mem \<Rightarrow> regionid_t \<Rightarrow> genoffset_t \<Rightarrow> genoffset_t \<Rightarrow> genoffset_t
      \<Rightarrow> genoffset_t \<Rightarrow> 64 word \<Rightarrow> (errval_t \<times> cleanq_ipcq cleanq \<times> ipc_mem) option" where
  "ipcq_enqueue q mem rid offset len valid_data valid_length misc_flags =
     ipcq_enqueue_internal q mem rid offset len valid_data valid_length misc_flags 0"

text \<open>The two statements \<^verbatim>\<open>q->rx_seq++; q->rx_seq_ack->value = q->rx_seq;\<close>.\<close>

definition ipcq_rx_advance ::
    "cleanq_ipcq cleanq \<Rightarrow> ipc_mem \<Rightarrow> (cleanq_ipcq cleanq \<times> ipc_mem) option" where
  "ipcq_rx_advance q mem =
     (case seqnum_store mem (rx_seq_ack (backend q)) (rx_seq (backend q) + 1) of
        None \<Rightarrow> None
      | Some mem' \<Rightarrow>
          Some (q\<lparr>backend := (backend q)\<lparr>rx_seq := rx_seq (backend q) + 1\<rparr>\<rparr>, mem'))"

definition desc_buf :: "ipcq_desc \<Rightarrow> cleanq_buf" where
  "desc_buf d = \<lparr>buf_offset = desc_offset d, buf_length = desc_length d,
                  buf_valid_data = desc_valid_data d, buf_valid_length = desc_valid_length d,
                  buf_flags = desc_flags d, buf_rid = desc_rid d\<rparr>"

text \<open>The command branch of \<^verbatim>\<open>ipcq_dequeue\<close> up to the recursive call.\<close>

definition ipcq_handle_command ::
    "cleanq_ipcq cleanq \<Rightarrow> ipcq_desc \<Rightarrow> (errval_t \<times> cleanq_ipcq cleanq) option" where
  "ipcq_handle_command q tail =
     (if desc_cmd tail = IPCQ_CMD_REGISTER
      then handle_register_command q
             \<lparr>cap_vaddr = desc_offset tail, cap_paddr = desc_valid_data tail,
              cap_len = desc_length tail\<rparr> (desc_rid tail)
      else handle_register_decommand q (desc_rid tail))"

text \<open>\<^verbatim>\<open>ipcq_dequeue\<close>. Over a memory that the peer does not change the recursion
  need not end, hence a partial function.\<close>

partial_function (option) ipcq_dequeue ::
    "cleanq_ipcq cleanq \<Rightarrow> ipc_mem
      \<Rightarrow> ((errval_t + cleanq_buf) \<times> cleanq_ipcq cleanq \<times> ipc_mem) option" where
  "ipcq_dequeue q mem =
     (case ipcq_can_recv q mem of
        None \<Rightarrow> None
      | Some can_recv \<Rightarrow>
          if \<not> can_recv then Some (Inl CLEANQ_ERR_QUEUE_EMPTY, q, mem)
          else
          (case ipcq_get_rx_desc_tail q of
             None \<Rightarrow> None
           | Some a \<Rightarrow>
               (case mem_cell mem a of
                  None \<Rightarrow> None
                | Some tail \<Rightarrow>
                    if desc_cmd tail = 0 then
                      (case ipcq_rx_advance q mem of
                         None \<Rightarrow> None
                       | Some (q', mem') \<Rightarrow> Some (Inr (desc_buf tail), q', mem'))
                    else
                      (case ipcq_handle_command q tail of
                         None \<Rightarrow> None
                       | Some (err, q1) \<Rightarrow>
                           (case ipcq_rx_advance q1 mem of
                              None \<Rightarrow> None
                            | Some (q2, mem') \<Rightarrow> ipcq_dequeue q2 mem')))))"

text \<open>\<^verbatim>\<open>ipcq_register\<close> and \<^verbatim>\<open>ipcq_deregister\<close> spin on \<^verbatim>\<open>ipcq_can_send\<close>; while the peer
  does not run, a full ring keeps them spinning.\<close>

definition ipcq_register ::
    "cleanq_ipcq cleanq \<Rightarrow> ipc_mem \<Rightarrow> capref \<Rightarrow> regionid_t
      \<Rightarrow> (errval_t \<times> cleanq_ipcq cleanq \<times> ipc_mem) option" where
  "ipcq_register q mem cap rid =
     (case ipcq_can_send q mem of
        Some True \<Rightarrow>
          ipcq_enqueue_internal q mem rid (cap_vaddr cap) (cap_len cap) (cap_paddr cap) 0 0
            IPCQ_CMD_REGISTER
      | _ \<Rightarrow> None)"

definition ipcq_deregister ::
    "cleanq_ipcq cleanq \<Rightarrow> ipc_mem \<Rightarrow> regionid_t
      \<Rightarrow> (errval_t \<times> cleanq_ipcq cleanq \<times> ipc_mem) option" where
  "ipcq_deregister q mem rid =
     (case ipcq_can_send q mem of
        Some True \<Rightarrow> ipcq_enqueue_internal q mem rid 0 0 0 0 0 IPCQ_CMD_DEREGISTER
      | _ \<Rightarrow> None)"

text \<open>
  \<^verbatim>\<open>cleanq_ipcq_create\<close>. \<open>creator\<close> says whether the exclusive \<^verbatim>\<open>shm_open\<close>
  succeeded; the creator's \<^verbatim>\<open>ftruncate\<close> gives it a zero-filled object of
  \<^verbatim>\<open>IPCQ_MEM_SIZE\<close> bytes, the other side maps the object as it is (\<open>mem\<close>). The
  pointer assignments are those of the source, as byte offsets.
\<close>

definition cleanq_ipcq_create ::
    "bool \<Rightarrow> bool \<Rightarrow> 64 word \<Rightarrow> ipc_mem \<Rightarrow> (cleanq_ipcq cleanq \<times> ipc_mem) option" where
  "cleanq_ipcq_create creator clear rnd mem =
     (let mem0 = (if creator then replicate (IPCQ_MEM_SIZE div IPCQ_MESSAGE_SIZE) zero_desc
                  else mem);
          mem1 = (if creator \<and> clear then map (\<lambda>c. zero_desc) mem0 else mem0);
          newq = (if creator
                  then \<lparr>ipcq_slots = of_nat (IPCQ_DEFAULT_SIZE - 1),
                        rx_descs = IPCQ_CHAN_SIZE + IPCQ_CHAN_SIZE, rx_seq = 1,
                        rx_seq_ack = IPCQ_CHAN_SIZE,
                        tx_descs = IPCQ_MESSAGE_SIZE, tx_seq = 1,
                        tx_seq_ack = 0\<rparr>
                  else \<lparr>ipcq_slots = of_nat (IPCQ_DEFAULT_SIZE - 1),
                        rx_descs = IPCQ_MESSAGE_SIZE, rx_seq = 1,
                        rx_seq_ack = 0,
                        tx_descs = IPCQ_CHAN_SIZE + IPCQ_MESSAGE_SIZE, tx_seq = 1,
                        tx_seq_ack = IPCQ_CHAN_SIZE\<rparr>)
      in case seqnum_store mem1 (tx_seq_ack newq) 0 of
           None \<Rightarrow> None
         | Some mem2 \<Rightarrow>
             (case seqnum_store mem2 (rx_seq_ack newq) 0 of
                None \<Rightarrow> None
              | Some mem3 \<Rightarrow> Some (cleanq_init rnd newq, mem3)))"

subsection \<open>Scenario states of the IPC backend\<close>

text \<open>The two endpoints of a new IPC queue, as \<^verbatim>\<open>cleanq_ipcq_create\<close> leaves them, and
  the zero-filled mapping of 128 cells.\<close>

definition zero_mem :: ipc_mem where
  "zero_mem = replicate 128 zero_desc"

definition creator_q :: "cleanq_ipcq cleanq" where
  "creator_q = cleanq_init 0
     \<lparr>ipcq_slots = 63, rx_descs = 8192, rx_seq = 1, rx_seq_ack = 4096,
      tx_descs = 64, tx_seq = 1, tx_seq_ack = 0\<rparr>"

definition joiner_q :: "cleanq_ipcq cleanq" where
  "joiner_q = cleanq_init 0
     \<lparr>ipcq_slots = 63, rx_descs = 64, rx_seq = 1, rx_seq_ack = 0,
      tx_descs = 4160, tx_seq = 1, tx_seq_ack = 4096\<rparr>"

text \<open>\<open>n\<close> consecutive enqueues of 2048-byte buffers at the offsets \<open>0, 2048, \<dots>\<close>, with
  the list of the returned error values.\<close>

primrec ipcq_enqueue_n ::
    "regionid_t \<Rightarrow> nat \<Rightarrow> cleanq_ipcq cleanq \<Rightarrow> ipc_mem
      \<Rightarrow> (errval_t list \<times> cleanq_ipcq cleanq \<times> ipc_mem) option" where
  "ipcq_enqueue_n rid 0 q mem = Some ([], q, mem)"
| "ipcq_enqueue_n rid (Suc n) q mem =
     (case ipcq_enqueue_n rid n q mem of
        None \<Rightarrow> None
      | Some (errs, q', mem') \<Rightarrow>
          (case ipcq_enqueue q' mem' rid (of_nat n * 2048) 2048 0 2048 0 of
             None \<Rightarrow> None
           | Some (err, q'', mem'') \<Rightarrow> Some (errs @ [err], q'', mem'')))"

subsection \<open>Debug wrapper (\<^verbatim>\<open>debug_queue.c\<close>)\<close>

text \<open>
  The free-range nodes are blocks of the slab allocator \<^verbatim>\<open>que->alloc\<close>, linked by
  \<^verbatim>\<open>next\<close> and \<^verbatim>\<open>prev\<close> pointers. They live in an explicit store from addresses to
  nodes; \<^verbatim>\<open>NULL\<close> is \<open>None\<close>. \<^verbatim>\<open>slab_alloc\<close> hands out a zeroed block at an address not
  used before, \<^verbatim>\<open>slab_free\<close> removes the block from the store, and reading or writing
  a block that is not in the store does not return. The list of regions is only
  ever extended at its tail and searched from its head; it is a list of
  \<^verbatim>\<open>struct memory_list\<close> records in that order.
\<close>

type_synonym addr = nat

record memory_ele =
  ele_offset :: genoffset_t
  ele_length :: genoffset_t
  ele_next :: "addr option"
  ele_prev :: "addr option"

record memory_list =
  ml_rid :: regionid_t
  ml_length :: genoffset_t
  ml_not_consistent :: bool
  ml_buffers :: "addr option"

record slab_allocator =
  slab_blocks :: "addr \<Rightarrow> memory_ele option"
  slab_next :: addr

definition slab_init :: slab_allocator where
  "slab_init = \<lparr>slab_blocks = (\<lambda>a. None), slab_next = 0\<rparr>"

definition zero_ele :: memory_ele where
  "zero_ele = \<lparr>ele_offset = 0, ele_length = 0, ele_next = None, ele_prev = None\<rparr>"

definition slab_alloc :: "slab_allocator \<Rightarrow> addr \<times> slab_allocator" where
  "slab_alloc s =
     (slab_next s,
      s\<lparr>slab_blocks := (slab_blocks s)(slab_next s \<mapsto> zero_ele),
        slab_next := Suc (slab_next s)\<rparr>)"

definition slab_free :: "slab_allocator \<Rightarrow> addr \<Rightarrow> slab_allocator" where
  "slab_free s a = s\<lparr>slab_blocks := (slab_blocks s)(a := None)\<rparr>"

text \<open>A read of the node at an address, and an assignment to fields of that node.\<close>

definition ele :: "slab_allocator \<Rightarrow> addr \<Rightarrow> memory_ele option" where
  "ele s a = slab_blocks s a"

definition ele_upd ::
    "slab_allocator \<Rightarrow> addr \<Rightarrow> (memory_ele \<Rightarrow> memory_ele) \<Rightarrow> slab_allocator option" where
  "ele_upd s a f =
     (case slab_blocks s a of
        None \<Rightarrow> None
      | Some e \<Rightarrow> Some (s\<lparr>slab_blocks := (slab_blocks s)(a \<mapsto> f e)\<rparr>))"

record 'b cleanq_debugq =
  dq_q :: "'b cleanq"
  dq_regions :: "memory_list list"
  dq_alloc :: slab_allocator

definition cleanq_debugq_create :: "64 word \<Rightarrow> 'b cleanq \<Rightarrow> 'b cleanq_debugq cleanq" where
  "cleanq_debugq_create rnd other_q =
     cleanq_init rnd \<lparr>dq_q = other_q, dq_regions = [], dq_alloc = slab_init\<rparr>"

definition buffer_in_bounds ::
    "genoffset_t \<Rightarrow> genoffset_t \<Rightarrow> genoffset_t \<Rightarrow> genoffset_t \<Rightarrow> bool" where
  "buffer_in_bounds offset_b1 len_b1 offset_b2 len_b2 =
     (offset_b1 \<ge> offset_b2 \<and> len_b1 \<le> len_b2 \<and> offset_b1 + len_b1 \<le> offset_b2 + len_b2)"

text \<open>\<^verbatim>\<open>remove_split_buffer\<close>: the three cases "cut off the beginning", "cut off the
  end" and "split", statement by statement.\<close>

definition remove_split_buffer ::
    "slab_allocator \<Rightarrow> memory_list \<Rightarrow> addr \<Rightarrow> genoffset_t \<Rightarrow> genoffset_t
      \<Rightarrow> (slab_allocator \<times> memory_list) option" where
  "remove_split_buffer s region buffer offset len = do {
     b \<leftarrow> ele s buffer;
     if ele_offset b = offset then do {
       s1 \<leftarrow> ele_upd s buffer
               (\<lambda>e. e\<lparr>ele_offset := ele_offset e + len, ele_length := ele_length e - len\<rparr>);
       b1 \<leftarrow> ele s1 buffer;
       if ele_length b1 = 0 then do {
         (s2, region2) \<leftarrow>
           (case ele_prev b1 of
              Some p \<Rightarrow> do {
                s' \<leftarrow> ele_upd s1 p (\<lambda>e. e\<lparr>ele_next := ele_next b1\<rparr>);
                Some (s', region) }
            | None \<Rightarrow> Some (s1, region\<lparr>ml_buffers := ele_next b1\<rparr>));
         b2 \<leftarrow> ele s2 buffer;
         s3 \<leftarrow> (case ele_next b2 of
                  Some n \<Rightarrow> ele_upd s2 n (\<lambda>e. e\<lparr>ele_prev := ele_prev b2\<rparr>)
                | None \<Rightarrow> Some s2);
         Some (slab_free s3 buffer, region2) }
       else Some (s1, region) }
     else if ele_offset b + ele_length b = offset + len then do {
       s1 \<leftarrow> ele_upd s buffer (\<lambda>e. e\<lparr>ele_length := ele_length e - len\<rparr>);
       b1 \<leftarrow> ele s1 buffer;
       if ele_length b1 = 0 then do {
         s2 \<leftarrow> (case ele_prev b1 of
                  Some p \<Rightarrow> ele_upd s1 buffer (\<lambda>e. e\<lparr>ele_prev := ele_next b1\<rparr>)
                | None \<Rightarrow> Some s1);
         b2 \<leftarrow> ele s2 buffer;
         s3 \<leftarrow> (case ele_next b2 of
                  Some n \<Rightarrow> ele_upd s2 n (\<lambda>e. e\<lparr>ele_prev := ele_prev b2\<rparr>)
                | None \<Rightarrow> Some s2);
         Some (slab_free s3 buffer, region) }
       else Some (s1, region) }
     else do {
       s1 \<leftarrow> ele_upd s buffer (\<lambda>e. e\<lparr>ele_length := offset - ele_offset e\<rparr>);
       b1 \<leftarrow> ele s1 buffer;
       (case slab_alloc s1 of (after, s2) \<Rightarrow> do {
          s3 \<leftarrow> ele_upd s2 after
                  (\<lambda>e. e\<lparr>ele_offset := ele_offset b1 + ele_length b1 + len,
                         ele_length := ele_length b - ele_length b1 - len,
                         ele_prev := Some buffer, ele_next := ele_next b1\<rparr>);
          s4 \<leftarrow> (case ele_next b1 of
                   Some n \<Rightarrow> ele_upd s3 n (\<lambda>e. e\<lparr>ele_prev := Some after\<rparr>)
                 | None \<Rightarrow> Some s3);
          s5 \<leftarrow> ele_upd s4 buffer (\<lambda>e. e\<lparr>ele_next := Some after\<rparr>);
          Some (s5, region) }) } }"

text \<open>\<^verbatim>\<open>insert_merge_buffer\<close>. The first test of the "insert after" branch is
  \<^verbatim>\<open>buffer->offset + length == offset\<close>, with the length of the inserted range.\<close>

definition insert_merge_buffer ::
    "slab_allocator \<Rightarrow> memory_list \<Rightarrow> addr \<Rightarrow> genoffset_t \<Rightarrow> genoffset_t
      \<Rightarrow> (slab_allocator \<times> memory_list) option" where
  "insert_merge_buffer s region buffer offset len = do {
     b \<leftarrow> ele s buffer;
     if offset \<ge> ele_offset b + ele_length b then
       (if ele_offset b + len = offset then do {
          s1 \<leftarrow> ele_upd s buffer (\<lambda>e. e\<lparr>ele_length := ele_length e + len\<rparr>);
          b1 \<leftarrow> ele s1 buffer;
          (case ele_next b1 of
             None \<Rightarrow> Some (s1, region)
           | Some n \<Rightarrow> do {
               nx \<leftarrow> ele s1 n;
               if ele_offset b1 + ele_length b1 = ele_offset nx then do {
                 s2 \<leftarrow> ele_upd s1 buffer (\<lambda>e. e\<lparr>ele_length := ele_length e + ele_length nx\<rparr>);
                 nx2 \<leftarrow> ele s2 n;
                 s4 \<leftarrow> (case ele_next nx2 of
                          None \<Rightarrow> Some s2
                        | Some nn \<Rightarrow> do {
                            s3 \<leftarrow> ele_upd s2 buffer (\<lambda>e. e\<lparr>ele_next := Some nn\<rparr>);
                            nne \<leftarrow> ele s3 nn;
                            nnn \<leftarrow> ele_next nne;
                            ele_upd s3 nnn (\<lambda>e. e\<lparr>ele_prev := Some buffer\<rparr>) });
                 Some (slab_free s4 n, region) }
               else Some (s1, region) }) }
        else do {
          higher \<leftarrow> (case ele_next b of
                       None \<Rightarrow> Some False
                     | Some n \<Rightarrow> do { nx \<leftarrow> ele s n; Some (ele_offset nx = offset + len) });
          if higher then do {
            n \<leftarrow> ele_next b;
            s1 \<leftarrow> ele_upd s n (\<lambda>e. e\<lparr>ele_offset := offset\<rparr>);
            s2 \<leftarrow> ele_upd s1 n (\<lambda>e. e\<lparr>ele_length := ele_length e + len\<rparr>);
            Some (s2, region) }
          else if ele_next b = None \<and> ele_offset b + ele_length b = offset then do {
            s1 \<leftarrow> ele_upd s buffer (\<lambda>e. e\<lparr>ele_length := ele_length e + len\<rparr>);
            Some (s1, region) }
          else
            (case slab_alloc s of (new, s1) \<Rightarrow> do {
               s2 \<leftarrow> ele_upd s1 new
                       (\<lambda>e. e\<lparr>ele_offset := offset, ele_length := len,
                              ele_next := ele_next b, ele_prev := Some buffer\<rparr>);
               s3 \<leftarrow> (case ele_next b of
                        Some n \<Rightarrow> ele_upd s2 n (\<lambda>e. e\<lparr>ele_prev := Some new\<rparr>)
                      | None \<Rightarrow> Some s2);
               s4 \<leftarrow> ele_upd s3 buffer (\<lambda>e. e\<lparr>ele_next := Some new\<rparr>);
               Some (s4, region) }) })
     else
       (if ele_offset b = offset + len then do {
          s1 \<leftarrow> ele_upd s buffer
                  (\<lambda>e. e\<lparr>ele_length := ele_length e + len, ele_offset := offset\<rparr>);
          b1 \<leftarrow> ele s1 buffer;
          lower \<leftarrow> (case ele_prev b1 of
                      None \<Rightarrow> Some False
                    | Some p \<Rightarrow> do {
                        pv \<leftarrow> ele s1 p;
                        Some (ele_offset pv + ele_length pv = ele_offset b1) });
          if lower then do {
            p \<leftarrow> ele_prev b1;
            s2 \<leftarrow> ele_upd s1 p (\<lambda>e. e\<lparr>ele_length := ele_length e + ele_length b1\<rparr>);
            b2 \<leftarrow> ele s2 buffer;
            s3 \<leftarrow> ele_upd s2 p (\<lambda>e. e\<lparr>ele_next := ele_next b2\<rparr>);
            b3 \<leftarrow> ele s3 buffer;
            s4 \<leftarrow> (case ele_next b3 of
                     Some n \<Rightarrow> ele_upd s3 n (\<lambda>e. e\<lparr>ele_prev := Some p\<rparr>)
                   | None \<Rightarrow> Some s3);
            Some (slab_free s4 buffer, region) }
          else Some (s1, region) }
        else do {
          lower \<leftarrow> (case ele_prev b of
                      None \<Rightarrow> Some False
                    | Some p \<Rightarrow> do {
                        pv \<leftarrow> ele s p;
                        Some (ele_offset pv + ele_length pv = offset) });
          if lower then do {
            p \<leftarrow> ele_prev b;
            s1 \<leftarrow> (if len = 0
                   then ele_upd s p (\<lambda>e. e\<lparr>ele_length := ele_length e + 2048\<rparr>)
                   else Some s);
            s2 \<leftarrow> ele_upd s1 p (\<lambda>e. e\<lparr>ele_length := ele_length e + len\<rparr>);
            Some (s2, region) }
          else
            (case slab_alloc s of (new, s1) \<Rightarrow> do {
               s2 \<leftarrow> ele_upd s1 new
                       (\<lambda>e. e\<lparr>ele_offset := offset, ele_length := len,
                              ele_next := Some buffer, ele_prev := ele_prev b\<rparr>);
               (s3, region3) \<leftarrow>
                 (case ele_prev b of
                    Some p \<Rightarrow> do {
                      s' \<leftarrow> ele_upd s2 p (\<lambda>e. e\<lparr>ele_next := Some new\<rparr>);
                      Some (s', region) }
                  | None \<Rightarrow> Some (s2, region\<lparr>ml_buffers := Some new\<rparr>));
               s4 \<leftarrow> ele_upd s3 buffer (\<lambda>e. e\<lparr>ele_prev := Some new\<rparr>);
               Some (s4, region3) }) }) }"

text \<open>\<^verbatim>\<open>find_region\<close>: the position of the first region with the id.\<close>

fun find_region :: "memory_list list \<Rightarrow> regionid_t \<Rightarrow> nat option" where
  "find_region [] rid = None"
| "find_region (r # rs) rid =
     (if ml_rid r = rid then Some 0 else map_option Suc (find_region rs rid))"

text \<open>\<^verbatim>\<open>debug_register\<close>. Its two branches (empty and non-empty region list) end in the
  same state: the new region, with one node for the whole region, at the tail.\<close>

definition debug_register ::
    "'b cleanq_f \<Rightarrow> 'b cleanq_debugq cleanq \<Rightarrow> capref \<Rightarrow> regionid_t
      \<Rightarrow> (errval_t \<times> 'b cleanq_debugq cleanq) option" where
  "debug_register f q cap rid =
     (case reg f (dq_q (backend q)) cap rid of
        None \<Rightarrow> None
      | Some (err, iq) \<Rightarrow>
          if err_is_fail err then Some (err, q\<lparr>backend := (backend q)\<lparr>dq_q := iq\<rparr>\<rparr>)
          else
            (case slab_alloc (dq_alloc (backend q)) of (a, s1) \<Rightarrow>
               (case ele_upd s1 a
                       (\<lambda>e. e\<lparr>ele_offset := 0, ele_length := cap_len cap, ele_next := None\<rparr>) of
                  None \<Rightarrow> None
                | Some s2 \<Rightarrow>
                    Some (CLEANQ_ERR_OK,
                      q\<lparr>backend := (backend q)\<lparr>
                          dq_q := iq,
                          dq_regions := dq_regions (backend q) @
                            [\<lparr>ml_rid = rid, ml_length = cap_len cap,
                              ml_not_consistent = False, ml_buffers = Some a\<rparr>],
                          dq_alloc := s2\<rparr>\<rparr>))))"

text \<open>The search loop of \<^verbatim>\<open>debug_enqueue\<close>, \<^verbatim>\<open>while (buffer != NULL)\<close>: the first node
  from \<open>buffer\<close> on that contains the range, at which the body of the loop forwards
  the call and returns; \<open>Some None\<close> when the loop runs off the end of the list.\<close>

partial_function (option) debug_enqueue_find ::
    "slab_allocator \<Rightarrow> addr option \<Rightarrow> genoffset_t \<Rightarrow> genoffset_t \<Rightarrow> addr option option" where
  "debug_enqueue_find s buffer offset len =
     (case buffer of
        None \<Rightarrow> Some None
      | Some a \<Rightarrow>
          (case ele s a of
             None \<Rightarrow> None
           | Some b \<Rightarrow>
               if buffer_in_bounds offset len (ele_offset b) (ele_length b) then Some (Some a)
               else debug_enqueue_find s (ele_next b) offset len))"

text \<open>The statements that both places of \<^verbatim>\<open>debug_enqueue\<close> run for the node found: the
  call of the inner queue and, when it succeeds, \<^verbatim>\<open>remove_split_buffer\<close>. \<open>i\<close> is the
  position of \<open>region\<close> in the region list.\<close>

definition debug_enqueue_forward ::
    "'b cleanq_f \<Rightarrow> 'b cleanq_debugq cleanq \<Rightarrow> nat \<Rightarrow> addr \<Rightarrow> regionid_t \<Rightarrow> genoffset_t
      \<Rightarrow> genoffset_t \<Rightarrow> genoffset_t \<Rightarrow> genoffset_t \<Rightarrow> 64 word
      \<Rightarrow> (errval_t \<times> 'b cleanq_debugq cleanq) option" where
  "debug_enqueue_forward f q i buffer rid offset len valid_data valid_length flags =
     (case enq f (dq_q (backend q)) rid offset len valid_data valid_length flags of
        None \<Rightarrow> None
      | Some (err, iq) \<Rightarrow>
          if err_is_fail err then Some (err, q\<lparr>backend := (backend q)\<lparr>dq_q := iq\<rparr>\<rparr>)
          else
            (case remove_split_buffer (dq_alloc (backend q)) (dq_regions (backend q) ! i)
                    buffer offset len of
               None \<Rightarrow> None
             | Some (s', region') \<Rightarrow>
                 Some (CLEANQ_ERR_OK,
                   q\<lparr>backend := (backend q)\<lparr>
                       dq_q := iq,
                       dq_regions := (dq_regions (backend q))[i := region'],
                       dq_alloc := s'\<rparr>\<rparr>)))"

definition debug_enqueue ::
    "'b cleanq_f \<Rightarrow> 'b cleanq_debugq cleanq \<Rightarrow> regionid_t \<Rightarrow> genoffset_t \<Rightarrow> genoffset_t
      \<Rightarrow> genoffset_t \<Rightarrow> genoffset_t \<Rightarrow> 64 word
      \<Rightarrow> (errval_t \<times> 'b cleanq_debugq cleanq) option" where
  "debug_enqueue f q rid offset len valid_data valid_length flags =
     (if \<not> len > 0 then None
      else
        case find_region (dq_regions (backend q)) rid of
          None \<Rightarrow> Some (CLEANQ_ERR_INVALID_REGION_ID, q)
        | Some i \<Rightarrow>
            (case ml_buffers (dq_regions (backend q) ! i) of
               None \<Rightarrow> Some (CLEANQ_ERR_BUFFER_ALREADY_IN_USE, q)
             | Some buffer \<Rightarrow>
                 (case ele (dq_alloc (backend q)) buffer of
                    None \<Rightarrow> None
                  | Some b \<Rightarrow>
                      if ele_next b = None then
                        (if buffer_in_bounds offset len (ele_offset b) (ele_length b)
                         then debug_enqueue_forward f q i buffer rid offset len valid_data
                                valid_length flags
                         else Some (CLEANQ_ERR_INVALID_BUFFER_ARGS, q))
                      else
                        (case debug_enqueue_find (dq_alloc (backend q)) (Some buffer)
                                offset len of
                           None \<Rightarrow> None
                         | Some None \<Rightarrow> Some (CLEANQ_ERR_INVALID_BUFFER_ARGS, q)
                         | Some (Some a) \<Rightarrow>
                             debug_enqueue_forward f q i a rid offset len valid_data
                               valid_length flags))))"

text \<open>The loop of \<^verbatim>\<open>debug_dequeue\<close>, \<^verbatim>\<open>while (buffer->next != NULL)\<close>: the node at which
  the body returns (the first one with \<open>offset < buffer->offset\<close>) or, when the loop
  ends, the last node. The statements run for that node are the same in both places.\<close>

partial_function (option) debug_dequeue_find ::
    "slab_allocator \<Rightarrow> addr \<Rightarrow> genoffset_t \<Rightarrow> addr option" where
  "debug_dequeue_find s buffer offset =
     (case ele s buffer of
        None \<Rightarrow> None
      | Some b \<Rightarrow>
          (case ele_next b of
             None \<Rightarrow> Some buffer
           | Some n \<Rightarrow>
               if offset \<ge> ele_offset b then debug_dequeue_find s n offset
               else Some buffer))"

text \<open>\<^verbatim>\<open>if (!buffer_in_bounds(..)) { insert_merge_buffer(..); return OK; } else return
  BUFFER_NOT_IN_USE\<close> for the node chosen; \<open>i\<close> is the position of the region.\<close>

definition debug_dequeue_insert ::
    "'b cleanq_debugq cleanq \<Rightarrow> nat \<Rightarrow> addr \<Rightarrow> cleanq_buf
      \<Rightarrow> ((errval_t + cleanq_buf) \<times> 'b cleanq_debugq cleanq) option" where
  "debug_dequeue_insert q i buffer buf =
     (case ele (dq_alloc (backend q)) buffer of
        None \<Rightarrow> None
      | Some b \<Rightarrow>
          if \<not> buffer_in_bounds (buf_offset buf) (buf_length buf) (ele_offset b) (ele_length b)
          then
            (case insert_merge_buffer (dq_alloc (backend q)) (dq_regions (backend q) ! i)
                    buffer (buf_offset buf) (buf_length buf) of
               None \<Rightarrow> None
             | Some (s', region') \<Rightarrow>
                 Some (Inr buf,
                   q\<lparr>backend := (backend q)\<lparr>
                       dq_regions := (dq_regions (backend q))[i := region'],
                       dq_alloc := s'\<rparr>\<rparr>))
          else Some (Inl CLEANQ_ERR_BUFFER_NOT_IN_USE, q))"

text \<open>The two "add region" branches of \<^verbatim>\<open>debug_dequeue\<close> for a region id that is not in
  the list. The second one runs \<^verbatim>\<open>memset(que->regions->buffers, 0, sizeof(ele->next))\<close>,
  which clears the first eight bytes, the \<^verbatim>\<open>offset\<close>, of the first node of the first
  region.\<close>

definition debug_dequeue_add_region ::
    "'b cleanq_debugq cleanq \<Rightarrow> cleanq_buf
      \<Rightarrow> ((errval_t + cleanq_buf) \<times> 'b cleanq_debugq cleanq) option" where
  "debug_dequeue_add_region q buf =
     (case (case dq_regions (backend q) of
              [] \<Rightarrow> Some (dq_alloc (backend q))
            | r # rs \<Rightarrow>
                (case ml_buffers r of
                   None \<Rightarrow> None
                 | Some a \<Rightarrow> ele_upd (dq_alloc (backend q)) a (\<lambda>e. e\<lparr>ele_offset := 0\<rparr>))) of
        None \<Rightarrow> None
      | Some s0 \<Rightarrow>
          (case slab_alloc s0 of (a, s1) \<Rightarrow>
             (case ele_upd s1 a
                     (\<lambda>e. e\<lparr>ele_offset := 0, ele_length := buf_offset buf + buf_length buf,
                            ele_next := None\<rparr>) of
                None \<Rightarrow> None
              | Some s2 \<Rightarrow>
                  Some (Inr buf,
                    q\<lparr>backend := (backend q)\<lparr>
                        dq_regions := dq_regions (backend q) @
                          [\<lparr>ml_rid = buf_rid buf,
                            ml_length = buf_offset buf + buf_length buf,
                            ml_not_consistent = True, ml_buffers = Some a\<rparr>],
                        dq_alloc := s2\<rparr>\<rparr>))))"

definition debug_dequeue ::
    "'b cleanq_f \<Rightarrow> 'b cleanq_debugq cleanq
      \<Rightarrow> ((errval_t + cleanq_buf) \<times> 'b cleanq_debugq cleanq) option" where
  "debug_dequeue f q0 =
     (case deq f (dq_q (backend q0)) of
        None \<Rightarrow> None
      | Some (Inl err, iq) \<Rightarrow> Some (Inl err, q0\<lparr>backend := (backend q0)\<lparr>dq_q := iq\<rparr>\<rparr>)
      | Some (Inr buf, iq) \<Rightarrow>
          (let q = q0\<lparr>backend := (backend q0)\<lparr>dq_q := iq\<rparr>\<rparr> in
           case find_region (dq_regions (backend q)) (buf_rid buf) of
             None \<Rightarrow> debug_dequeue_add_region q buf
           | Some i \<Rightarrow>
               (let region0 = dq_regions (backend q) ! i;
                    region = (if ml_not_consistent region0
                                 \<and> buf_offset buf + buf_length buf > ml_length region0
                              then region0\<lparr>ml_length := buf_offset buf + buf_length buf\<rparr>
                              else region0);
                    q1 = q\<lparr>backend := (backend q)\<lparr>
                             dq_regions := (dq_regions (backend q))[i := region]\<rparr>\<rparr>
                in
                  case ml_buffers region of
                    None \<Rightarrow>
                      (case slab_alloc (dq_alloc (backend q1)) of (a, s1) \<Rightarrow>
                         (case ele_upd s1 a
                                 (\<lambda>e. e\<lparr>ele_offset := buf_offset buf,
                                        ele_length := buf_length buf,
                                        ele_next := None, ele_prev := None\<rparr>) of
                            None \<Rightarrow> None
                          | Some s2 \<Rightarrow>
                              Some (Inr buf,
                                q1\<lparr>backend := (backend q1)\<lparr>
                                    dq_regions := (dq_regions (backend q1))
                                       [i := region\<lparr>ml_buffers := Some a\<rparr>],
                                    dq_alloc := s2\<rparr>\<rparr>)))
                  | Some buffer \<Rightarrow>
                      (case ele (dq_alloc (backend q1)) buffer of
                         None \<Rightarrow> None
                       | Some b \<Rightarrow>
                           if ele_next b = None then debug_dequeue_insert q1 i buffer buf
                           else
                             (case debug_dequeue_find (dq_alloc (backend q1)) buffer
                                     (buf_offset buf) of
                                None \<Rightarrow> None
                              | Some a \<Rightarrow> debug_dequeue_insert q1 i a buf)))))"

text \<open>
  The free-range list that starts at a pointer, read off the store: \<open>ranges s p rs\<close>
  says that following \<^verbatim>\<open>next\<close> from \<open>p\<close> passes nodes with exactly the (offset, length)
  pairs \<open>rs\<close> and then reaches \<^verbatim>\<open>NULL\<close>. \<open>free_ranges q rid rs\<close> says so for the
  region \<open>rid\<close> of a debug queue.
\<close>

primrec ranges ::
    "slab_allocator \<Rightarrow> addr option \<Rightarrow> (genoffset_t \<times> genoffset_t) list \<Rightarrow> bool" where
  "ranges s p [] = (p = None)"
| "ranges s p (r # rs) =
     (case p of
        None \<Rightarrow> False
      | Some a \<Rightarrow>
          (case ele s a of
             None \<Rightarrow> False
           | Some e \<Rightarrow> (ele_offset e, ele_length e) = r \<and> ranges s (ele_next e) rs))"

definition free_ranges ::
    "'b cleanq_debugq cleanq \<Rightarrow> regionid_t \<Rightarrow> (genoffset_t \<times> genoffset_t) list \<Rightarrow> bool" where
  "free_ranges q rid rs =
     (case find_region (dq_regions (backend q)) rid of
        None \<Rightarrow> False
      | Some i \<Rightarrow> ranges (dq_alloc (backend q)) (ml_buffers (dq_regions (backend q) ! i)) rs)"

subsection \<open>Scenario states of the debug wrapper\<close>

text \<open>A new debug queue stacked on a new loopback queue.\<close>

definition debug_q0 :: "cleanq_loopbackq cleanq_debugq cleanq" where
  "debug_q0 = cleanq_debugq_create 0 (loopback_queue_create 0)"

text \<open>After \<^verbatim>\<open>register\<close> of a region of 8192 bytes under the id 1, and after the
  \<^verbatim>\<open>enqueue\<close> of the buffer (offset 2048, length 2048) of that region.\<close>

definition dbg_registered_q :: "cleanq_loopbackq cleanq_debugq cleanq" where
  "dbg_registered_q =
     snd (the (debug_register loopback_f debug_q0
                 \<lparr>cap_vaddr = 0, cap_paddr = 0, cap_len = 8192\<rparr> 1))"

definition dbg_split_q :: "cleanq_loopbackq cleanq_debugq cleanq" where
  "dbg_split_q = snd (the (debug_enqueue loopback_f dbg_registered_q 1 2048 2048 0 2048 0))"

text \<open>After \<^verbatim>\<open>register\<close> of a region of 2048 bytes under the id 1, and after the
  \<^verbatim>\<open>enqueue\<close> of the whole region as one buffer.\<close>

definition dbg_small_q :: "cleanq_loopbackq cleanq_debugq cleanq" where
  "dbg_small_q =
     snd (the (debug_register loopback_f debug_q0
                 \<lparr>cap_vaddr = 0, cap_paddr = 0, cap_len = 2048\<rparr> 1))"

definition dbg_inflight_q :: "cleanq_loopbackq cleanq_debugq cleanq" where
  "dbg_inflight_q = snd (the (debug_enqueue loopback_f dbg_small_q 1 0 2048 0 2048 0))"

text \<open>A debug queue stacked on a loopback queue that already holds the descriptor
  (region 1, offset 2048, length 2048), after \<^verbatim>\<open>register\<close> of the region 1 of 8192
  bytes: the wrapper owns the whole region while the inner queue returns a part of it.\<close>

definition dbg_owned_q :: "cleanq_loopbackq cleanq_debugq cleanq" where
  "dbg_owned_q =
     snd (the (debug_register loopback_f
                 (cleanq_debugq_create 0
                    (snd (the (loopback_enqueue (loopback_queue_create 0) 1 2048 2048 0 2048 0))))
                 \<lparr>cap_vaddr = 0, cap_paddr = 0, cap_len = 8192\<rparr> 1))"

text \<open>
  A debug queue whose single free node reaches past the end of the 64-bit offset
  space. The inner loopback queue already holds two descriptors of region 1, at
  offset \<open>2^64 - 1024 = 18446744073709550592\<close>: one of 2048 bytes, then one of 512
  bytes. The wrapper registers region 1 of 2048 bytes (\<open>dbg_wrap_q0\<close>), enqueues the
  whole region, which empties the free-range list (\<open>dbg_wrap_q1\<close>), and dequeues
  once: the first descriptor becomes the only node (\<open>dbg_wrap_q2\<close>). \<open>dbg_wrap_q3\<close> is
  the state after one more dequeue.
\<close>

definition dbg_wrap_inner :: "cleanq_loopbackq cleanq" where
  "dbg_wrap_inner =
     snd (the (loopback_enqueue
       (snd (the (loopback_enqueue (loopback_queue_create 0)
                    1 18446744073709550592 2048 0 2048 0)))
       1 18446744073709550592 512 0 512 0))"

definition dbg_wrap_q0 :: "cleanq_loopbackq cleanq_debugq cleanq" where
  "dbg_wrap_q0 =
     snd (the (debug_register loopback_f (cleanq_debugq_create 0 dbg_wrap_inner)
                 \<lparr>cap_vaddr = 0, cap_paddr = 0, cap_len = 2048\<rparr> 1))"

definition dbg_wrap_q1 :: "cleanq_loopbackq cleanq_debugq cleanq" where
  "dbg_wrap_q1 = snd (the (debug_enqueue loopback_f dbg_wrap_q0 1 0 2048 0 2048 0))"

definition dbg_wrap_q2 :: "cleanq_loopbackq cleanq_debugq cleanq" where
  "dbg_wrap_q2 = snd (the (debug_dequeue loopback_f dbg_wrap_q1))"

definition dbg_wrap_q3 :: "cleanq_loopbackq cleanq_debugq cleanq" where
  "dbg_wrap_q3 = snd (the (debug_dequeue loopback_f dbg_wrap_q2))"

subsection \<open>Applying an inline command, in the words of the specification\<close>

text \<open>
  What "the receiver applies the command to its local region pool and invokes the
  user callback" amounts to, as one state change: a registration goes through
  \<^verbatim>\<open>region_pool_add_region_with_id\<close>, a deregistration through
  \<^verbatim>\<open>region_pool_remove_region\<close>, and the matching callback is invoked (recorded in
  \<open>cb_trace\<close>) when it is set and the pool operation returned \<^verbatim>\<open>CLEANQ_ERR_OK\<close>. This
  definition is not taken from the source; the handlers of the source are compared
  with it below.
\<close>

definition command_applied :: "'b cleanq \<Rightarrow> bool \<Rightarrow> capref \<Rightarrow> regionid_t \<Rightarrow> 'b cleanq option" where
  "command_applied q is_register cap rid =
     (if is_register then
        (case region_pool_add_region_with_id (pool q) cap rid of
           None \<Rightarrow> None
         | Some (err, p) \<Rightarrow>
             Some (q\<lparr>pool := p,
                    cb_trace := (if err = CLEANQ_ERR_OK \<and> callbacks_reg q \<noteq> None
                                 then cb_trace q @ [CbRegister cap rid] else cb_trace q)\<rparr>))
      else
        (case region_pool_remove_region (pool q) rid of
           None \<Rightarrow> None
         | Some (err, p) \<Rightarrow>
             Some (q\<lparr>pool := p,
                    cb_trace := (if err = CLEANQ_ERR_OK \<and> callbacks_dereg q \<noteq> None
                                 then cb_trace q @ [CbDeregister rid] else cb_trace q)\<rparr>)))"

subsection \<open>Scenario states for inline commands\<close>

definition cb_ok :: "capref \<Rightarrow> regionid_t \<Rightarrow> errval_t" where
  "cb_ok cap rid = CLEANQ_ERR_OK"

text \<open>The slot that \<^verbatim>\<open>ff_register\<close> writes for the region id 5 with a capability of
  4096 bytes: \<^verbatim>\<open>ff_enqueue(q, rid, vaddr, len, paddr, 0, FFQ_CMD_REGISTER)\<close>.\<close>

definition register_slot :: ffq_slot where
  "register_slot = \<lparr>data0 = 5, data1 = 0, data2 = 4096, data3 = 0, data4 = 0,
                     data5 = FFQ_CMD_REGISTER, data6 = 0, data7 = 0\<rparr>"

text \<open>An FF queue with a register callback set and that command waiting in slot 0 of
  its receive channel: once with an empty pool, once with a pool whose slot 5 already
  holds a region.\<close>

definition ffq_register_pending :: "cleanq_ffq cleanq" where
  "ffq_register_pending =
     ffq_fresh\<lparr>callbacks_reg := Some cb_ok,
       backend := (backend ffq_fresh)\<lparr>rxq := (rxq (backend ffq_fresh))
         \<lparr>chan_slots := (replicate 64 empty_slot)[0 := register_slot]\<rparr>\<rparr>\<rparr>"

definition ffq_register_clash :: "cleanq_ffq cleanq" where
  "ffq_register_clash = ffq_register_pending\<lparr>pool := pool alias_q\<rparr>"

text \<open>The mapping of an IPC queue pair after the creator has enqueued one data buffer,
  and after the creator has sent one register command instead.\<close>

definition ipc_data_mem :: ipc_mem where
  "ipc_data_mem = snd (snd (the (ipcq_enqueue creator_q zero_mem 1 0 2048 0 2048 0)))"

definition ipc_register_mem :: ipc_mem where
  "ipc_register_mem =
     snd (snd (the (ipcq_register creator_q zero_mem
                      \<lparr>cap_vaddr = 0, cap_paddr = 0, cap_len = 4096\<rparr> 7)))"

section \<open>Properties\<close>

subsection \<open>Word arithmetic\<close>

lemma unat_plus64:
  "unat (x::64 word) + unat y < 2 ^ 64 \<Longrightarrow> unat (x + y) = unat x + unat y"
  using unat_add_lem[of x y] by simp

subsection \<open>Region pool and frontend\<close>

text \<open>The slot index of any region id lies inside a table of \<open>rp_size\<close> entries.\<close>

lemma slot_index_lt: "rp_size p \<noteq> 0 \<Longrightarrow> slot_index p rid < unat (rp_size p)"
proof -
  assume nz: "rp_size p \<noteq> 0"
  let ?m = "(ucast (rp_size p) :: 32 word)"
  have lt: "unat (rp_size p) < 2 ^ 16" using unsigned_less[of "rp_size p"] by simp
  have u: "unat ?m = unat (rp_size p)"
    using lt by (simp add: unsigned_ucast_eq take_bit_nat_eq_self)
  have "?m \<noteq> 0" using nz u by (metis unat_0_iff)
  then have "unat (?m - 1) = unat ?m - 1" by (rule unat_minus_one)
  then have "unat (?m - 1) < unat (rp_size p)"
    using u nz by (simp add: unat_gt_0)
  moreover have "rid AND (?m - 1) \<le> ?m - 1" by (rule word_and_le1)
  ultimately show ?thesis unfolding slot_index_def by (simp add: word_le_nat_alt)
qed

lemma alias_q_reachable:
  "cleanq_add_region (loopback_queue_create 0)
     \<lparr>cap_vaddr = 0, cap_paddr = 0, cap_len = 4096\<rparr> 5 = Some (CLEANQ_ERR_OK, alias_q)"
  by (simp add: cleanq_add_region_def region_pool_add_region_with_id_def alias_q_def
      loopback_queue_create_def cleanq_init_def region_pool_init_def INIT_POOL_SIZE_def
      pool_at_def slot_index_def err_is_fail_def)

lemma alias_q_slot:
  "slot_index (pool alias_q) 5 = 5" "slot_index (pool alias_q) 21 = 5"
  by (simp_all add: alias_q_def slot_index_def region_pool_init_def INIT_POOL_SIZE_def)

text \<open>
  C3, as stated, fails: the pool is indexed by \<^verbatim>\<open>region_id & (size - 1)\<close> and the id
  stored in the slot is never compared with the id of the call. In \<open>alias_q\<close> the
  only region has id 5; an enqueue under the id 21 (same slot, no such region) passes
  the check, returns \<^verbatim>\<open>CLEANQ_ERR_OK\<close> and the loopback backend has stored the
  descriptor.
\<close>

theorem cleanq_enqueue_region_id_counterexample:
  "rp_pool (pool alias_q) =
     (replicate 16 None)[5 := Some \<lparr>region_id = 5, region_base_addr = 0, region_len = 4096\<rparr>]
   \<and> cleanq_enqueue loopback_f alias_q 21 0 2048 0 2048 0 =
     Some (CLEANQ_ERR_OK, alias_q\<lparr>backend := (backend alias_q)\<lparr>
        lq_queue := (lq_queue (backend alias_q))
           [0 := \<lparr>buf_offset = 0, buf_length = 2048, buf_valid_data = 0,
                  buf_valid_length = 2048, buf_flags = 0, buf_rid = 21\<rparr>],
        lq_head := 1, lq_num_ele := 1\<rparr>\<rparr>)"
  by (simp add: cleanq_enqueue_def region_pool_buffer_check_bounds_def alias_q_slot pool_at_def
        loopback_f_def)
     (simp add: alias_q_def region_pool_init_def INIT_POOL_SIZE_def loopback_queue_create_def
        cleanq_init_def LOOPBACK_QUEUE_SIZE_def loopback_enqueue_def)

text \<open>
  C3 (amended): for every queue whose pool table has \<open>rp_size\<close> entries, every backend
  \<open>f\<close> and every enqueue call through the frontend whose sums \<open>offset + length\<close> and
  \<open>valid_data + valid_length\<close> fit in 64 bits: the call returns \<^verbatim>\<open>CLEANQ_ERR_OK\<close>
  only if the pool slot selected by \<^verbatim>\<open>region_id & (size - 1)\<close> holds a region \<open>r\<close> with
  \<open>offset + length \<le> region_len r\<close> and \<open>valid_data + valid_length \<le> length\<close>; if this
  condition fails, the call returns \<^verbatim>\<open>CLEANQ_ERR_INVALID_BUFFER_ARGS\<close> with the queue
  unchanged, whatever the backend is (the backend is not invoked).
\<close>

theorem cleanq_enqueue_bounds:
  assumes "unat offset + unat len < 2 ^ 64"
    and "unat valid_data + unat valid_length < 2 ^ 64"
    and "rp_size (pool q) \<noteq> 0"
    and "length (rp_pool (pool q)) = unat (rp_size (pool q))"
  shows "(\<forall>q'. cleanq_enqueue f q rid offset len valid_data valid_length misc_flags
                = Some (CLEANQ_ERR_OK, q') \<longrightarrow>
           (\<exists>r. rp_pool (pool q) ! slot_index (pool q) rid = Some r \<and>
                unat offset + unat len \<le> unat (region_len r) \<and>
                unat valid_data + unat valid_length \<le> unat len)) \<and>
         (\<not> (\<exists>r. rp_pool (pool q) ! slot_index (pool q) rid = Some r \<and>
                unat offset + unat len \<le> unat (region_len r) \<and>
                unat valid_data + unat valid_length \<le> unat len) \<longrightarrow>
           (\<forall>g. cleanq_enqueue g q rid offset len valid_data valid_length misc_flags
                = Some (CLEANQ_ERR_INVALID_BUFFER_ARGS, q)))"
proof -
  have a: "unat (len + offset) = unat offset + unat len"
    using assms(1) unat_plus64[of len offset] by (simp add: add.commute)
  have b: "unat (valid_data + valid_length) = unat valid_data + unat valid_length"
    using assms(2) by (simp add: unat_plus64)
  have c: "slot_index (pool q) rid < length (rp_pool (pool q))"
    using assms(3,4) slot_index_lt[of "pool q" rid] by simp
  show ?thesis
    using c a b
    by (auto simp: cleanq_enqueue_def region_pool_buffer_check_bounds_def pool_at_def
          word_less_nat_alt word_le_nat_alt split: option.splits if_splits bool.splits)
qed

theorem cleanq_enqueue_bounds_witness:
  "unat (4096::64 word) + unat (2048::64 word) < 2 ^ 64 \<and>
   rp_size (pool alias_q) \<noteq> 0 \<and>
   length (rp_pool (pool alias_q)) = unat (rp_size (pool alias_q)) \<and>
   cleanq_enqueue loopback_f alias_q 5 4096 2048 0 2048 0
     = Some (CLEANQ_ERR_INVALID_BUFFER_ARGS, alias_q)"
  using cleanq_enqueue_bounds[where offset=4096 and len=2048 and valid_data=0
      and valid_length=2048 and q=alias_q and rid=5 and f=loopback_f and misc_flags=0]
  by (simp add: alias_q_slot) (simp add: alias_q_def region_pool_init_def INIT_POOL_SIZE_def)

subsection \<open>FF backend: send and receive\<close>

lemma ffq_fresh_init:
  "ffq_impl_init_tx (replicate 64 zero_slot) FFQ_DEFAULT_SIZE True
     = Some (txq (backend ffq_fresh))"
  "ffq_impl_init_rx (replicate 64 zero_slot) FFQ_DEFAULT_SIZE True
     = Some (rxq (backend ffq_fresh))"
  by (simp_all add: ffq_impl_init_tx_def ffq_impl_init_rx_def ffq_init_slots_def
      FFQ_DEFAULT_SIZE_def ffq_fresh_def cleanq_init_def zero_slot_def empty_slot_def
      map_replicate)

text \<open>What \<^verbatim>\<open>ff_enqueue\<close> returns, for every call: \<^verbatim>\<open>CLEANQ_ERR_QUEUE_FULL\<close> exactly when
  the message was written, \<^verbatim>\<open>CLEANQ_ERR_OK\<close> exactly when the slot was occupied and
  nothing was written.\<close>

lemma ff_enqueue_result:
  assumes "ff_enqueue q rid offset len valid_data valid_length misc_flags = Some (err, q')"
  shows "(err = CLEANQ_ERR_QUEUE_FULL \<and>
            ffq_impl_can_send (txq (backend q)) = Some True) \<or>
         (err = CLEANQ_ERR_OK \<and> q' = q \<and>
            ffq_impl_can_send (txq (backend q)) = Some False)"
  using assms
  by (auto simp: ff_enqueue_def ffq_impl_send_def
        split: option.splits bool.splits if_splits)

text \<open>
  C1 (the code departs from the claim): on the freshly initialised queue the slot at
  \<open>pos\<close> is empty; \<^verbatim>\<open>ff_enqueue\<close> writes the message and returns
  \<^verbatim>\<open>CLEANQ_ERR_QUEUE_FULL\<close>, where the claim says \<^verbatim>\<open>CLEANQ_ERR_OK\<close>. A second enqueue
  finds the slot occupied, writes nothing and returns \<^verbatim>\<open>CLEANQ_ERR_OK\<close>, where the
  claim says \<^verbatim>\<open>CLEANQ_ERR_QUEUE_FULL\<close>.
\<close>

theorem ff_enqueue_inverted_result:
  "ff_enqueue ffq_fresh 1 0 2048 0 2048 0 = Some (CLEANQ_ERR_QUEUE_FULL, ffq_sent) \<and>
   ff_enqueue ffq_sent 1 2048 2048 0 2048 0 = Some (CLEANQ_ERR_OK, ffq_sent)"
  by (simp add: ff_enqueue_def ffq_impl_send_def ffq_impl_can_send_def ffq_impl_get_slot_def
      ffq_fresh_def ffq_sent_def cleanq_init_def FFQ_DEFAULT_SIZE_def empty_slot_def
      sent_slot_def FFQ_SLOT_EMPTY_def)

text \<open>A successful send or receive leaves a position that is inside the ring where
  it was: \<^verbatim>\<open>pos % size\<close> is \<^verbatim>\<open>pos\<close>.\<close>

lemma ffq_impl_send_pos:
  "ffq_impl_send q a1 a2 a3 a4 a5 a6 = Some (True, q') \<Longrightarrow> chan_pos q < chan_size q
    \<Longrightarrow> chan_pos q' = chan_pos q"
  by (auto simp: ffq_impl_send_def mod_word_less split: option.splits bool.splits if_splits)

lemma ffq_impl_recv_pos:
  "ffq_impl_recv q = Some (Some m, q') \<Longrightarrow> chan_pos q < chan_size q
    \<Longrightarrow> chan_pos q' = chan_pos q"
  by (auto simp: ffq_impl_recv_def mod_word_less split: option.splits bool.splits if_splits)

text \<open>
  C2 (the code departs from the claim): a successful send on the fresh transmit
  channel (\<open>pos = 0\<close>, \<open>N = 64\<close>) and a successful receive on a channel with a message
  in slot 0 both leave \<open>pos = 0\<close>, where the claim says \<open>(0 + 1) mod 64 = 1\<close>.
\<close>

theorem ffq_pos_not_advanced:
  "ffq_impl_send (txq (backend ffq_fresh)) 1 0 2048 0 2048 0
     = Some (True, txq (backend ffq_sent)) \<and>
   chan_pos (txq (backend ffq_fresh)) = 0 \<and>
   chan_pos (txq (backend ffq_sent)) = 0 \<and>
   (chan_pos (txq (backend ffq_fresh)) + 1) mod chan_size (txq (backend ffq_fresh)) = 1 \<and>
   ffq_impl_recv (rxq (backend ffq_pending))
     = Some (Some (1, 0, 2048, 0, 2048, 0),
         (rxq (backend ffq_pending))\<lparr>chan_slots :=
            (replicate 64 empty_slot)[0 := sent_slot\<lparr>data0 := FFQ_SLOT_EMPTY\<rparr>]\<rparr>) \<and>
   chan_pos (rxq (backend ffq_pending)) = 0 \<and>
   (chan_pos (rxq (backend ffq_pending)) + 1) mod chan_size (rxq (backend ffq_pending)) = 1"
  by (simp add: ffq_impl_send_def ffq_impl_can_send_def ffq_impl_recv_def
      ffq_impl_can_recv_def ffq_impl_get_slot_def ffq_fresh_def ffq_sent_def ffq_pending_def
      cleanq_init_def FFQ_DEFAULT_SIZE_def empty_slot_def sent_slot_def FFQ_SLOT_EMPTY_def)

subsection \<open>IPC backend: flow control and layout\<close>

lemma replicate_update_same: "(replicate n x)[i := x] = replicate n x"
  by (induction n arbitrary: i) (simp_all split: nat.split)

lemma ipcq_pair_created:
  "cleanq_ipcq_create True clear 0 m = Some (creator_q, zero_mem)"
  "cleanq_ipcq_create False False 0 zero_mem = Some (joiner_q, zero_mem)"
  by (simp_all add: cleanq_ipcq_create_def creator_q_def joiner_q_def zero_mem_def
       IPCQ_MEM_SIZE_def IPCQ_CHAN_SIZE_def IPCQ_DEFAULT_SIZE_def IPCQ_MESSAGE_SIZE_def
       seqnum_store_def mem_cell_def mem_store_def zero_desc_def Let_def replicate_update_same)

lemma mem_cell_64: "mem_cell mem (64 * i) = (if i < length mem then Some (mem ! i) else None)"
  by (simp add: mem_cell_def IPCQ_MESSAGE_SIZE_def)

lemma mem_store_64: "mem_store mem (64 * i) d = (if i < length mem then Some (mem[i := d]) else None)"
  by (simp add: mem_store_def IPCQ_MESSAGE_SIZE_def)

lemma unat_seq: "n < 2 ^ 64 - 1 \<Longrightarrow> unat (1 + of_nat n :: 64 word) = Suc n"
proof -
  assume "n < 2 ^ 64 - 1"
  then have "unat (of_nat (Suc n) :: 64 word) = Suc n"
    by (simp only: unat_of_nat) simp
  then show ?thesis by simp
qed

text \<open>One enqueue by a sender whose descriptors start at cell \<open>D\<close> and whose ack cell \<open>A\<close>
  holds 0: sequence number \<open>n + 1\<close> goes to cell \<open>D + n + 1\<close>.\<close>

lemma ipcq_enqueue_step:
  assumes "n < 62"
    and "ipcq_slots (backend q) = 63" and "tx_seq (backend q) = 1 + of_nat n"
    and "tx_seq_ack (backend q) = 64 * A" and "tx_descs (backend q) = 64 * D"
    and "A < length mem" and "D + 62 < length mem"
    and "desc_seq (mem ! A) = 0"
  shows "ipcq_enqueue q mem rid offset len vd vl flags =
     Some (CLEANQ_ERR_OK, q\<lparr>backend := (backend q)\<lparr>tx_seq := 1 + of_nat (Suc n)\<rparr>\<rparr>,
           mem[D + Suc n := (mem ! (D + Suc n))\<lparr>desc_rid := rid, desc_offset := offset, desc_length := len,
                               desc_valid_data := vd, desc_valid_length := vl, desc_flags := flags,
                               desc_cmd := 0, desc_seq := 1 + of_nat n\<rparr>])"
proof -
  have u: "unat (1 + of_nat n :: 64 word) = Suc n" using assms(1) by (simp add: unat_seq)
  have cs: "ipcq_can_send q mem = Some True"
    using assms u by (simp add: ipcq_can_send_def seqnum_value_def mem_cell_64 word_less_nat_alt)
  have m: "unat ((1 + of_nat n :: 64 word) mod 63) = Suc n"
    using assms(1) u by (simp add: unat_mod)
  have hd: "ipcq_get_tx_desc_head q = Some (64 * (D + Suc n))"
    using assms m by (simp add: ipcq_get_tx_desc_head_def IPCQ_MESSAGE_SIZE_def)
  have lt: "D + Suc n < length mem" using assms(1,7) by simp
  have mc: "mem_cell mem (64 * (D + Suc n)) = Some (mem ! (D + Suc n))"
    using lt by (simp only: mem_cell_64 if_True)
  have ms: "mem_store mem (64 * (D + Suc n)) d = Some (mem[D + Suc n := d])" for d
    using lt by (simp only: mem_store_64 if_True)
  show ?thesis
    by (simp only: ipcq_enqueue_def ipcq_enqueue_internal_def cs hd mc ms option.case
          bool.case assms(3))
       (simp add: add.commute)
qed

lemma ipcq_enqueue_full:
  assumes "ipcq_slots (backend q) = 63" and "tx_seq (backend q) = 63"
    and "tx_seq_ack (backend q) = 64 * A" 
    and "A < length mem" 
    and "desc_seq (mem ! A) = 0"
  shows "ipcq_enqueue q mem rid offset len vd vl flags = Some (CLEANQ_ERR_QUEUE_FULL, q, mem)"
  using assms by (simp add: ipcq_enqueue_def ipcq_enqueue_internal_def ipcq_can_send_def seqnum_value_def mem_cell_64)


lemma ipcq_enqueue_n_fill:
  assumes "k \<le> 62"
    and "ipcq_slots (backend q) = 63" and "tx_seq (backend q) = 1"
    and "tx_seq_ack (backend q) = 64 * A" and "tx_descs (backend q) = 64 * D"
    and "A < length mem" and "D + 62 < length mem"
    and "desc_seq (mem ! A) = 0" and "A \<le> D \<or> D + 62 < A"
  shows "\<exists>mem'. ipcq_enqueue_n rid k q mem =
            Some (replicate k CLEANQ_ERR_OK,
                  q\<lparr>backend := (backend q)\<lparr>tx_seq := 1 + of_nat k\<rparr>\<rparr>, mem') \<and>
          length mem' = length mem \<and>
          (\<forall>i. i \<le> D \<or> D + k < i \<longrightarrow> mem' ! i = mem ! i) \<and>
          (0 < k \<longrightarrow> mem' ! (D + 1) =
             (mem ! (D + 1))\<lparr>desc_rid := rid, desc_offset := 0, desc_length := 2048,
                desc_valid_data := 0, desc_valid_length := 2048, desc_flags := 0,
                desc_cmd := 0, desc_seq := 1\<rparr>)"
  using assms(1)
proof (induction k)
  case 0
  have "q\<lparr>backend := (backend q)\<lparr>tx_seq := 1\<rparr>\<rparr> = q"
    using assms(3) by (cases q, cases "backend q") simp
  then show ?case by simp
next
  case (Suc k)
  then have k: "k < 62" by simp
  from Suc obtain mem' where
    run: "ipcq_enqueue_n rid k q mem =
            Some (replicate k CLEANQ_ERR_OK,
                  q\<lparr>backend := (backend q)\<lparr>tx_seq := 1 + of_nat k\<rparr>\<rparr>, mem')"
    and len: "length mem' = length mem"
    and same: "\<And>i. i \<le> D \<or> D + k < i \<Longrightarrow> mem' ! i = mem ! i"
    and first: "0 < k \<Longrightarrow> mem' ! (D + 1) =
             (mem ! (D + 1))\<lparr>desc_rid := rid, desc_offset := 0, desc_length := 2048,
                desc_valid_data := 0, desc_valid_length := 2048, desc_flags := 0,
                desc_cmd := 0, desc_seq := 1\<rparr>"
    by auto
  let ?q = "q\<lparr>backend := (backend q)\<lparr>tx_seq := 1 + of_nat k\<rparr>\<rparr>"
  let ?d = "(mem' ! (D + Suc k))\<lparr>desc_rid := rid, desc_offset := of_nat k * 2048,
                desc_length := 2048, desc_valid_data := 0, desc_valid_length := 2048,
                desc_flags := 0, desc_cmd := 0, desc_seq := 1 + of_nat k\<rparr>"
  have ackA: "mem' ! A = mem ! A"
    using assms(9) k by (intro same) auto
  have step: "ipcq_enqueue ?q mem' rid (of_nat k * 2048) 2048 0 2048 0 =
      Some (CLEANQ_ERR_OK, ?q\<lparr>backend := (backend ?q)\<lparr>tx_seq := 1 + of_nat (Suc k)\<rparr>\<rparr>,
            mem'[D + Suc k := ?d])"
    by (rule ipcq_enqueue_step[where A=A and D=D])
       (use k assms len ackA in simp_all)
  have res: "ipcq_enqueue_n rid (Suc k) q mem =
      Some (replicate (Suc k) CLEANQ_ERR_OK,
            q\<lparr>backend := (backend q)\<lparr>tx_seq := 1 + of_nat (Suc k)\<rparr>\<rparr>, mem'[D + Suc k := ?d])"
    by (simp only: ipcq_enqueue_n.simps run step option.case prod.case)
       (simp add: replicate_append_same)
  have unchanged: "\<forall>i. i \<le> D \<or> D + Suc k < i \<longrightarrow> (mem'[D + Suc k := ?d]) ! i = mem ! i"
    using same by auto
  have firstcell: "(mem'[D + Suc k := ?d]) ! (D + 1) =
             (mem ! (D + 1))\<lparr>desc_rid := rid, desc_offset := 0, desc_length := 2048,
                desc_valid_data := 0, desc_valid_length := 2048, desc_flags := 0,
                desc_cmd := 0, desc_seq := 1\<rparr>"
  proof (cases "k = 0")
    case True
    have "mem' ! (D + 1) = mem ! (D + 1)" using True by (intro same) simp
    then show ?thesis using True assms(7) len by simp
  next
    case False
    then show ?thesis using first by simp
  qed
  show ?case
    using res len unchanged firstcell by (intro exI[of _ "mem'[D + Suc k := ?d]"]) simp
qed

lemma creator_q_simps:
  "ipcq_slots (backend creator_q) = 63" "tx_seq (backend creator_q) = 1"
  "tx_seq_ack (backend creator_q) = 64 * 0" "tx_descs (backend creator_q) = 64 * 1"
  "rx_descs (backend creator_q) = 8192" "rx_seq (backend creator_q) = 1"
  by (simp_all add: creator_q_def cleanq_init_def)

lemma joiner_q_simps:
  "ipcq_slots (backend joiner_q) = 63" "tx_seq (backend joiner_q) = 1"
  "tx_seq_ack (backend joiner_q) = 64 * 64" "tx_descs (backend joiner_q) = 64 * 65"
  "rx_descs (backend joiner_q) = 64" "rx_seq (backend joiner_q) = 1"
  "rx_seq_ack (backend joiner_q) = 0"
  by (simp_all add: joiner_q_def cleanq_init_def)

lemma zero_mem_simps:
  "length zero_mem = 128" "i < 128 \<Longrightarrow> zero_mem ! i = zero_desc"
  by (simp_all add: zero_mem_def)

lemma fill_then_full:
  assumes "ipcq_slots (backend q) = 63" and "tx_seq (backend q) = 1"
    and "tx_seq_ack (backend q) = 64 * A" and "tx_descs (backend q) = 64 * D"
    and "A < 128" and "D + 62 < 128" and "A \<le> D \<or> D + 62 < A"
  shows "map_option fst (ipcq_enqueue_n rid 63 q zero_mem)
           = Some (replicate 62 CLEANQ_ERR_OK @ [CLEANQ_ERR_QUEUE_FULL])"
proof -
  obtain mem' where
    run: "ipcq_enqueue_n rid 62 q zero_mem =
            Some (replicate 62 CLEANQ_ERR_OK,
                  q\<lparr>backend := (backend q)\<lparr>tx_seq := 1 + of_nat 62\<rparr>\<rparr>, mem')"
    and len: "length mem' = length zero_mem"
    and same: "\<forall>i. i \<le> D \<or> D + 62 < i \<longrightarrow> mem' ! i = zero_mem ! i"
    using ipcq_enqueue_n_fill[where k=62 and q=q and mem=zero_mem and A=A and D=D and rid=rid]
      assms by (auto simp: zero_mem_simps zero_desc_def)
  let ?q = "q\<lparr>backend := (backend q)\<lparr>tx_seq := 1 + of_nat 62\<rparr>\<rparr>"
  have "mem' ! A = zero_mem ! A" using same assms(7) by auto
  then have ack: "desc_seq (mem' ! A) = 0" using assms(5) by (simp add: zero_mem_simps zero_desc_def)
  have full: "ipcq_enqueue ?q mem' rid (of_nat 62 * 2048) 2048 0 2048 0
      = Some (CLEANQ_ERR_QUEUE_FULL, ?q, mem')"
    by (rule ipcq_enqueue_full[where A=A]) (use assms len ack in \<open>simp_all add: zero_mem_simps\<close>)
  have "(63::nat) = Suc 62" by simp
  then have "ipcq_enqueue_n rid 63 q zero_mem =
      Some (replicate 62 CLEANQ_ERR_OK @ [CLEANQ_ERR_QUEUE_FULL], ?q, mem')"
    by (simp only: ipcq_enqueue_n.simps run full option.case prod.case)
  then show ?thesis by simp
qed

text \<open>
  C4, as stated, fails: \<^verbatim>\<open>ipcq_can_send\<close> is \<^verbatim>\<open>tx_seq - ack < slots\<close> with \<open>slots = 63\<close>,
  \<open>tx_seq\<close> starts at 1 and the ack word at 0. On a new queue pair, for the creator
  and for the joiner alike, 62 enqueues return \<^verbatim>\<open>CLEANQ_ERR_OK\<close> and the 63rd returns
  \<^verbatim>\<open>CLEANQ_ERR_QUEUE_FULL\<close>.
\<close>

theorem ipcq_63rd_enqueue_full_counterexample:
  "map_option fst (ipcq_enqueue_n 1 63 creator_q zero_mem)
     = Some (replicate 62 CLEANQ_ERR_OK @ [CLEANQ_ERR_QUEUE_FULL]) \<and>
   map_option fst (ipcq_enqueue_n 1 63 joiner_q zero_mem)
     = Some (replicate 62 CLEANQ_ERR_OK @ [CLEANQ_ERR_QUEUE_FULL])"
  using fill_then_full[where q=creator_q and A=0 and D=1 and rid=1]
        fill_then_full[where q=joiner_q and A=64 and D=65 and rid=1]
  by (simp add: creator_q_simps joiner_q_simps)


text \<open>
  C4 (amended): on a freshly created IPC queue pair (local \<open>tx_seq\<close> and \<open>rx_seq\<close> 1,
  both shared ack words 0, 63 descriptor slots per direction), 62 consecutive
  enqueues of data buffers by the creator succeed, the 63rd enqueue returns
  \<^verbatim>\<open>CLEANQ_ERR_QUEUE_FULL\<close> and changes nothing, and after the joiner has dequeued one
  descriptor (the first buffer) the next enqueue succeeds.
\<close>

theorem ipcq_fill_drain:
  "cleanq_ipcq_create True clear 0 m0 = Some (creator_q, zero_mem) \<and>
   cleanq_ipcq_create False False 0 zero_mem = Some (joiner_q, zero_mem) \<and>
   (\<exists>q62 m62 qj m63 q63 m64.
      ipcq_enqueue_n rid 62 creator_q zero_mem = Some (replicate 62 CLEANQ_ERR_OK, q62, m62) \<and>
      ipcq_enqueue q62 m62 rid (62 * 2048) 2048 0 2048 0
        = Some (CLEANQ_ERR_QUEUE_FULL, q62, m62) \<and>
      ipcq_dequeue joiner_q m62
        = Some (Inr \<lparr>buf_offset = 0, buf_length = 2048, buf_valid_data = 0,
                     buf_valid_length = 2048, buf_flags = 0, buf_rid = rid\<rparr>, qj, m63) \<and>
      ipcq_enqueue q62 m63 rid (62 * 2048) 2048 0 2048 0 = Some (CLEANQ_ERR_OK, q63, m64))"
proof -
  let ?q = "creator_q\<lparr>backend := (backend creator_q)\<lparr>tx_seq := 1 + of_nat 62\<rparr>\<rparr>"
  let ?d = "zero_desc\<lparr>desc_rid := rid, desc_offset := 0, desc_length := 2048,
                desc_valid_data := 0, desc_valid_length := 2048, desc_flags := 0,
                desc_cmd := 0, desc_seq := 1\<rparr>"
  have "\<exists>mem'. ipcq_enqueue_n rid 62 creator_q zero_mem =
            Some (replicate 62 CLEANQ_ERR_OK,
                  creator_q\<lparr>backend := (backend creator_q)\<lparr>tx_seq := 1 + of_nat 62\<rparr>\<rparr>, mem') \<and>
          length mem' = length zero_mem \<and>
          (\<forall>i. i \<le> 1 \<or> 1 + 62 < i \<longrightarrow> mem' ! i = zero_mem ! i) \<and>
          (0 < (62::nat) \<longrightarrow> mem' ! (1 + 1) =
             (zero_mem ! (1 + 1))\<lparr>desc_rid := rid, desc_offset := 0, desc_length := 2048,
                desc_valid_data := 0, desc_valid_length := 2048, desc_flags := 0,
                desc_cmd := 0, desc_seq := 1\<rparr>)"
    by (rule ipcq_enqueue_n_fill[where A=0])
       (simp_all add: zero_mem_simps zero_desc_def creator_q_simps)
  then have "\<exists>mem'. ipcq_enqueue_n rid 62 creator_q zero_mem =
            Some (replicate 62 CLEANQ_ERR_OK,
                  creator_q\<lparr>backend := (backend creator_q)\<lparr>tx_seq := 1 + of_nat 62\<rparr>\<rparr>, mem') \<and>
          length mem' = length zero_mem \<and>
          (\<forall>i. i \<le> 1 \<or> 1 + 62 < i \<longrightarrow> mem' ! i = zero_mem ! i) \<and>
          mem' ! (1 + 1) =
             (zero_mem ! (1 + 1))\<lparr>desc_rid := rid, desc_offset := 0, desc_length := 2048,
                desc_valid_data := 0, desc_valid_length := 2048, desc_flags := 0,
                desc_cmd := 0, desc_seq := 1\<rparr>"
    by simp
  then obtain mem' where
    run: "ipcq_enqueue_n rid 62 creator_q zero_mem = Some (replicate 62 CLEANQ_ERR_OK, ?q, mem')"
    and len0: "length mem' = length zero_mem"
    and same: "\<forall>i. i \<le> 1 \<or> 1 + 62 < i \<longrightarrow> mem' ! i = zero_mem ! i"
    and first0: "mem' ! (1 + 1) =
             (zero_mem ! (1 + 1))\<lparr>desc_rid := rid, desc_offset := 0, desc_length := 2048,
                desc_valid_data := 0, desc_valid_length := 2048, desc_flags := 0,
                desc_cmd := 0, desc_seq := 1\<rparr>"
    by blast
  have len: "length mem' = 128" using len0 by (simp add: zero_mem_simps)
  have "(1::nat) + 1 = 2" by simp
  then have first: "mem' ! 2 = ?d" using first0 by (simp only: zero_mem_simps)
  have c0: "mem' ! 0 = zero_desc" and c1: "mem' ! 1 = zero_desc"
    using same by (simp_all add: zero_mem_simps)
  have full: "ipcq_enqueue ?q mem' rid (62 * 2048) 2048 0 2048 0
      = Some (CLEANQ_ERR_QUEUE_FULL, ?q, mem')"
    by (rule ipcq_enqueue_full[where A=0])
       (use len c0 in \<open>simp_all add: creator_q_simps zero_desc_def\<close>)
  let ?qj = "joiner_q\<lparr>backend := (backend joiner_q)\<lparr>rx_seq := 2\<rparr>\<rparr>"
  let ?m63 = "mem'[0 := zero_desc\<lparr>desc_seq := 2\<rparr>]"
  have tail: "ipcq_get_rx_desc_tail joiner_q = Some (64 * 2)"
    by (simp add: ipcq_get_rx_desc_tail_def joiner_q_simps IPCQ_MESSAGE_SIZE_def)
  have cell2: "mem_cell mem' (64 * 2) = Some ?d"
    using len first by (simp only: mem_cell_64) simp
  have can: "ipcq_can_recv joiner_q mem' = Some True"
    by (simp only: ipcq_can_recv_def tail cell2 option.case) (simp add: joiner_q_simps)
  have adv: "ipcq_rx_advance joiner_q mem' = Some (?qj, ?m63)"
    using len c0 mem_cell_64[of mem' 0] mem_store_64[of mem' 0]
    by (simp add: ipcq_rx_advance_def seqnum_store_def joiner_q_simps)
  have deq: "ipcq_dequeue joiner_q mem'
        = Some (Inr \<lparr>buf_offset = 0, buf_length = 2048, buf_valid_data = 0,
                     buf_valid_length = 2048, buf_flags = 0, buf_rid = rid\<rparr>, ?qj, ?m63)"
    by (subst ipcq_dequeue.simps, simp only: can tail cell2 option.case simp_thms if_False)
       (simp add: adv desc_buf_def zero_desc_def)
  let ?d63 = "zero_desc\<lparr>desc_rid := rid, desc_offset := 62 * 2048, desc_length := 2048,
                desc_valid_data := 0, desc_valid_length := 2048, desc_flags := 0,
                desc_cmd := 0, desc_seq := 63\<rparr>"
  have cs: "ipcq_can_send ?q ?m63 = Some True"
    using len mem_cell_64[of ?m63 0]
    by (simp add: ipcq_can_send_def seqnum_value_def creator_q_simps)
  have hd: "ipcq_get_tx_desc_head ?q = Some (64 * 1)"
    by (simp add: ipcq_get_tx_desc_head_def creator_q_simps IPCQ_MESSAGE_SIZE_def)
  have mc: "mem_cell ?m63 (64 * 1) = Some zero_desc"
    using len c1 by (simp only: mem_cell_64) simp
  have ms: "mem_store ?m63 (64 * 1) d = Some (?m63[1 := d])" for d
    using len by (simp only: mem_store_64) simp
  have again: "ipcq_enqueue ?q ?m63 rid (62 * 2048) 2048 0 2048 0
      = Some (CLEANQ_ERR_OK, ?q\<lparr>backend := (backend ?q)\<lparr>tx_seq := 64\<rparr>\<rparr>, ?m63[1 := ?d63])"
    by (simp only: ipcq_enqueue_def ipcq_enqueue_internal_def cs hd mc ms option.case bool.case)
       simp
  show ?thesis
    apply (intro conjI)
      apply (rule ipcq_pair_created(1))
     apply (rule ipcq_pair_created(2))
    apply (rule exI)+
    apply (rule conjI, rule run)
    apply (rule conjI, rule full)
    apply (rule conjI, rule deq)
    apply (rule again)
    done
qed


text \<open>With \<^verbatim>\<open>rx_descs = rxtx_mem + IPCQ_CHAN_SIZE + IPCQ_CHAN_SIZE\<close> every receive
  descriptor lies behind the end of the mapping: the dequeue of the creator reads
  outside the mapping, whatever the mapping holds.\<close>

lemma creator_dequeue_outside:
  assumes "rx_descs (backend q) = IPCQ_CHAN_SIZE + IPCQ_CHAN_SIZE"
    and "length mem * IPCQ_MESSAGE_SIZE = IPCQ_MEM_SIZE"
  shows "ipcq_dequeue q mem = None"
proof -
  have len: "length mem = 128"
    using assms(2) by (simp add: IPCQ_MEM_SIZE_def IPCQ_CHAN_SIZE_def IPCQ_DEFAULT_SIZE_def
        IPCQ_MESSAGE_SIZE_def)
  have "ipcq_can_recv q mem = None"
  proof (cases "ipcq_slots (backend q) = 0")
    case True
    then show ?thesis by (simp add: ipcq_can_recv_def ipcq_get_rx_desc_tail_def)
  next
    case False
    have "mem_cell mem (64 * (128 + k)) = None" for k
      using len by (simp only: mem_cell_64) simp
    then have "mem_cell mem (8192 + 64 * k) = None" for k
      by (simp add: algebra_simps)
    then show ?thesis
      using False assms(1)
      by (simp add: ipcq_can_recv_def ipcq_get_rx_desc_tail_def IPCQ_CHAN_SIZE_def
          IPCQ_DEFAULT_SIZE_def IPCQ_MESSAGE_SIZE_def)
  qed
  then show ?thesis by (subst ipcq_dequeue.simps) simp
qed

text \<open>
  C5 (the code departs from the claim): the creator's \<open>rx_descs\<close> is byte 8192, the
  end of the mapping of \<open>2 \<times> 64 \<times> 64 = 8192\<close> bytes. Its first receive reads the
  descriptor at byte 8256, outside the mapping, where the claim places the creator's
  receive descriptors in the second half on the joiner's transmit slots (the first
  one at byte 4224).
\<close>

theorem ipcq_creator_rx_descs_outside_mapping:
  "cleanq_ipcq_create True False 0 [] = Some (creator_q, zero_mem) \<and>
   length zero_mem * IPCQ_MESSAGE_SIZE = IPCQ_MEM_SIZE \<and>
   IPCQ_MEM_SIZE = 8192 \<and>
   rx_descs (backend creator_q) = 8192 \<and>
   ipcq_get_rx_desc_tail creator_q = Some 8256 \<and>
   mem_cell zero_mem 8256 = None \<and>
   ipcq_dequeue creator_q zero_mem = None \<and>
   ipcq_get_tx_desc_head joiner_q = Some 4224"
proof -
  have sz: "length zero_mem * IPCQ_MESSAGE_SIZE = IPCQ_MEM_SIZE" "IPCQ_MEM_SIZE = 8192"
    by (simp_all add: zero_mem_simps IPCQ_MEM_SIZE_def IPCQ_CHAN_SIZE_def IPCQ_DEFAULT_SIZE_def
        IPCQ_MESSAGE_SIZE_def)
  have "ipcq_dequeue creator_q zero_mem = None"
    by (rule creator_dequeue_outside)
       (simp_all add: zero_mem_simps creator_q_simps IPCQ_MEM_SIZE_def IPCQ_CHAN_SIZE_def
          IPCQ_DEFAULT_SIZE_def IPCQ_MESSAGE_SIZE_def)
  moreover have "ipcq_get_rx_desc_tail creator_q = Some 8256"
    by (simp add: ipcq_get_rx_desc_tail_def creator_q_simps IPCQ_MESSAGE_SIZE_def)
  moreover have "ipcq_get_tx_desc_head joiner_q = Some 4224"
    by (simp add: ipcq_get_tx_desc_head_def joiner_q_simps IPCQ_MESSAGE_SIZE_def)
  moreover have "mem_cell zero_mem 8256 = None"
    by (simp add: mem_cell_def zero_mem_simps IPCQ_MESSAGE_SIZE_def)
  ultimately show ?thesis
    using sz ipcq_pair_created(1)[of False "[]"] by (simp add: creator_q_simps)
qed

subsection \<open>Debug wrapper\<close>

lemmas dbg_defs = debug_register_def debug_enqueue_def debug_dequeue_def debug_enqueue_forward_def
  debug_dequeue_insert_def remove_split_buffer_def insert_merge_buffer_def
  slab_alloc_def slab_free_def slab_init_def ele_def ele_upd_def zero_ele_def buffer_in_bounds_def
  free_ranges_def debug_q0_def cleanq_debugq_create_def cleanq_init_def
  loopback_f_def loopback_enqueue_def loopback_dequeue_def loopback_register_def
  loopback_queue_create_def LOOPBACK_QUEUE_SIZE_def err_is_fail_def Let_def
  debug_dequeue_find.simps debug_enqueue_find.simps

text \<open>
  C6: for the debug wrapper stacked on a loopback queue, whatever the region id, the
  addresses of the region, the valid range and the flags: after registering a region
  of 8192 bytes its free-range list is the single node \<open>(0, 8192)\<close>; after enqueuing
  the buffer (offset 2048, length 2048) the list is \<open>[(0, 2048), (4096, 4096)]\<close>; the
  dequeue returns the same buffer and the list is \<open>[(0, 8192)]\<close> again.
\<close>

theorem debug_split_merge_scenario:
  "(case debug_register loopback_f debug_q0 \<lparr>cap_vaddr = va, cap_paddr = pa, cap_len = 8192\<rparr> rid of
      None \<Rightarrow> False
    | Some (e1, q1) \<Rightarrow>
        e1 = CLEANQ_ERR_OK \<and> free_ranges q1 rid [(0, 8192)] \<and>
        (case debug_enqueue loopback_f q1 rid 2048 2048 vd vl flags of
           None \<Rightarrow> False
         | Some (e2, q2) \<Rightarrow>
             e2 = CLEANQ_ERR_OK \<and> free_ranges q2 rid [(0, 2048), (4096, 4096)] \<and>
             (case debug_dequeue loopback_f q2 of
                None \<Rightarrow> False
              | Some (r, q3) \<Rightarrow>
                  r = Inr \<lparr>buf_offset = 2048, buf_length = 2048, buf_valid_data = vd,
                           buf_valid_length = vl, buf_flags = flags, buf_rid = rid\<rparr> \<and>
                  free_ranges q3 rid [(0, 8192)])))"
  by (simp add: dbg_defs)

lemma unat_plus64_le: "unat (x + y) \<le> unat x + unat (y::64 word)"
  using unat_plus_if'[of x y] by simp

text \<open>Under the code's test a range that does not wrap lies inside the node.\<close>
lemma buffer_in_bounds_contained:
  assumes "unat offset + unat len < 2 ^ 64" and "buffer_in_bounds offset len off l"
  shows "unat off \<le> unat offset \<and> unat offset + unat len \<le> unat off + unat l"
proof -
  have "unat (offset + len) \<le> unat (off + l)"
    using assms(2) by (simp add: buffer_in_bounds_def word_le_nat_alt)
  moreover have "unat (offset + len) = unat offset + unat len"
    using assms(1) by (rule unat_plus64)
  moreover have "unat (off + l) \<le> unat off + unat l" by (rule unat_plus64_le)
  moreover have "unat off \<le> unat offset"
    using assms(2) by (simp add: buffer_in_bounds_def word_le_nat_alt)
  ultimately show ?thesis by simp
qed

text \<open>A range inside a node that does not wrap passes the code's test.\<close>
lemma contained_buffer_in_bounds:
  assumes "unat off + unat l < 2 ^ 64"
    and "unat off \<le> unat offset" and "unat offset + unat len \<le> unat off + unat l"
  shows "buffer_in_bounds offset len off l"
proof -
  have a: "unat (off + l) = unat off + unat l" using assms(1) by (rule unat_plus64)
  have "unat offset + unat len < 2 ^ 64" using assms(1,3) by simp
  then have b: "unat (offset + len) = unat offset + unat len" by (rule unat_plus64)
  have "unat len \<le> unat l" using assms(2,3) by simp
  then show ?thesis
    using a b assms(2,3) by (simp add: buffer_in_bounds_def word_le_nat_alt)
qed

lemma debug_enqueue_find_none:
  assumes "ranges s p rs"
    and "\<forall>(off, l) \<in> set rs. \<not> buffer_in_bounds offset len off l"
  shows "debug_enqueue_find s p offset len = Some None"
  using assms
proof (induction rs arbitrary: p)
  case Nil
  then show ?case by (subst debug_enqueue_find.simps) simp
next
  case (Cons r rs)
  from Cons.prems(1) obtain a e where p: "p = Some a" and e: "ele s a = Some e"
    and r: "(ele_offset e, ele_length e) = r" and rest: "ranges s (ele_next e) rs"
    by (auto split: option.splits)
  have nb: "\<not> buffer_in_bounds offset len (ele_offset e) (ele_length e)"
    using Cons.prems(2) r by auto
  have "debug_enqueue_find s (ele_next e) offset len = Some None"
    using rest Cons.prems(2) by (intro Cons.IH) auto
  then show ?case
    by (subst debug_enqueue_find.simps) (simp add: p e nb)
qed

text \<open>
  With the test of the code, \<open>buffer_in_bounds\<close>, as the notion of containment: an
  enqueue of a buffer of non-zero length on a known region, where no node of the
  free-range list \<open>rs\<close> passes the test, is rejected before the inner backend is
  called, and the queue is returned as it was.
\<close>

lemma debug_enqueue_no_node_in_bounds:
  assumes "len \<noteq> 0"
    and "free_ranges q rid rs"
    and nb: "\<forall>(off, l) \<in> set rs. \<not> buffer_in_bounds offset len off l"
  shows "debug_enqueue f q rid offset len valid_data valid_length flags =
           Some (if rs = [] then CLEANQ_ERR_BUFFER_ALREADY_IN_USE
                 else CLEANQ_ERR_INVALID_BUFFER_ARGS, q)"
proof -
  let ?s = "dq_alloc (backend q)"
  from assms(2) obtain i where i: "find_region (dq_regions (backend q)) rid = Some i"
    and rg: "ranges ?s (ml_buffers (dq_regions (backend q) ! i)) rs"
    by (auto simp: free_ranges_def split: option.splits)
  have pos: "len > 0" using assms(1) by (simp add: word_greater_zero_iff)
  show ?thesis
  proof (cases rs)
    case Nil
    then show ?thesis using rg i pos by (simp add: debug_enqueue_def)
  next
    case (Cons r rs')
    from rg Cons obtain a e where p: "ml_buffers (dq_regions (backend q) ! i) = Some a"
      and e: "ele ?s a = Some e" and r: "(ele_offset e, ele_length e) = r"
      by (auto split: option.splits)
    have nbe: "\<not> buffer_in_bounds offset len (ele_offset e) (ele_length e)"
      using nb r Cons by auto
    have fnd: "debug_enqueue_find ?s (Some a) offset len = Some None"
      using debug_enqueue_find_none[OF rg nb] p by simp
    show ?thesis
      using i pos p e nbe fnd Cons by (simp add: debug_enqueue_def)
  qed
qed

text \<open>
  C8 (amended): if the debug wrapper's enqueue is called on a known region for a
  buffer \<open>[off, off+len)\<close> of non-zero length, with \<open>off + len\<close> inside 64 bits, that is
  not fully contained in any node of that region's free-range list \<open>rs\<close>, the call
  returns \<^verbatim>\<open>CLEANQ_ERR_INVALID_BUFFER_ARGS\<close>, or \<^verbatim>\<open>CLEANQ_ERR_BUFFER_ALREADY_IN_USE\<close> when
  the list is empty; whatever the inner backend \<open>f\<close> is, it is not invoked, and the
  queue, with its free-range list, is returned as it was.
\<close>

theorem debug_enqueue_unowned:
  assumes "len \<noteq> 0"
    and "unat offset + unat len < 2 ^ 64"
    and "free_ranges q rid rs"
    and "\<forall>(off, l) \<in> set rs.
           \<not> (unat off \<le> unat offset \<and> unat offset + unat len \<le> unat off + unat l)"
  shows "debug_enqueue f q rid offset len valid_data valid_length flags =
           Some (if rs = [] then CLEANQ_ERR_BUFFER_ALREADY_IN_USE
                 else CLEANQ_ERR_INVALID_BUFFER_ARGS, q)"
proof -
  have "\<forall>(off, l) \<in> set rs. \<not> buffer_in_bounds offset len off l"
    using assms(2,4) buffer_in_bounds_contained[of offset len] by blast
  with assms(1,3) show ?thesis by (rule debug_enqueue_no_node_in_bounds)
qed

lemma find_region_same_ids:
  "map ml_rid rs' = map ml_rid rs \<Longrightarrow> find_region rs' rid = find_region rs rid"
proof (induction rs arbitrary: rs')
  case Nil
  then show ?case by simp
next
  case (Cons r rs)
  then obtain r' rs'' where rs': "rs' = r' # rs''" by (cases rs') auto
  have hd: "ml_rid r' = ml_rid r" and tl: "map ml_rid rs'' = map ml_rid rs"
    using Cons.prems rs' by simp_all
  have "find_region rs'' rid = find_region rs rid" using tl by (rule Cons.IH)
  then show ?case unfolding rs' by (simp add: hd)
qed

lemma find_region_lt: "find_region rs rid = Some i \<Longrightarrow> i < length rs"
  by (induction rs arbitrary: i) (auto split: if_splits)

text \<open>
  With the test of the code, \<open>buffer_in_bounds\<close>, as the notion of containment: when
  the inner dequeue succeeds on a known region whose free-range list is the single
  node \<open>(off, l)\<close>, and the returned range passes the test against that node, the
  wrapper reports \<^verbatim>\<open>CLEANQ_ERR_BUFFER_NOT_IN_USE\<close> and leaves the list and the store of
  nodes as they were.
\<close>

lemma debug_dequeue_node_in_bounds:
  assumes "deq f (dq_q (backend q)) = Some (Inr buf, iq)"
    and "free_ranges q (buf_rid buf) [(off, l)]"
    and "buffer_in_bounds (buf_offset buf) (buf_length buf) off l"
  shows "\<exists>q'. debug_dequeue f q = Some (Inl CLEANQ_ERR_BUFFER_NOT_IN_USE, q') \<and>
              free_ranges q' (buf_rid buf) [(off, l)] \<and>
              dq_alloc (backend q') = dq_alloc (backend q)"
proof -
  let ?s = "dq_alloc (backend q)"
  let ?rs = "dq_regions (backend q)"
  from assms(2) obtain i a e where i: "find_region ?rs (buf_rid buf) = Some i"
    and p: "ml_buffers (?rs ! i) = Some a"
    and e: "ele ?s a = Some e" and r: "ele_offset e = off" "ele_length e = l"
    and nx: "ele_next e = None"
    by (auto simp: free_ranges_def split: option.splits)
  have ib: "buffer_in_bounds (buf_offset buf) (buf_length buf) (ele_offset e) (ele_length e)"
    unfolding r using assms(3) .
  let ?region = "if ml_not_consistent (?rs ! i)
                    \<and> buf_offset buf + buf_length buf > ml_length (?rs ! i)
                 then (?rs ! i)\<lparr>ml_length := buf_offset buf + buf_length buf\<rparr>
                 else ?rs ! i"
  let ?q' = "q\<lparr>backend := (backend q)\<lparr>dq_q := iq, dq_regions := ?rs[i := ?region]\<rparr>\<rparr>"
  have il: "i < length ?rs" using i by (rule find_region_lt)
  have pb: "ml_buffers ?region = Some a" using p by simp
  have run: "debug_dequeue f q = Some (Inl CLEANQ_ERR_BUFFER_NOT_IN_USE, ?q')"
    using assms(1) i pb e nx ib
    by (simp add: debug_dequeue_def debug_dequeue_insert_def Let_def del: if_split cong: if_cong) 
  have "ml_rid ?region = map ml_rid ?rs ! i" using il by simp
  then have ids: "map ml_rid (?rs[i := ?region]) = map ml_rid ?rs"
    by (simp only: map_update list_update_id)
  have "find_region (?rs[i := ?region]) (buf_rid buf) = Some i"
    using find_region_same_ids[OF ids] i by simp
  then have "free_ranges ?q' (buf_rid buf) [(off, l)]"
    using il pb e r nx by (simp add: free_ranges_def)
  then show ?thesis using run by (intro exI[of _ ?q']) simp
qed

text \<open>
  Where the single node \<open>[off, off+l)\<close> does not reach past the end of the 64-bit
  offset space, containment of the returned range in the node gives the test of the
  code: the wrapper returns \<^verbatim>\<open>CLEANQ_ERR_BUFFER_NOT_IN_USE\<close>, the free-range list is still
  that one node and no node of the store has changed.
\<close>

lemma debug_dequeue_node_contains:
  assumes "deq f (dq_q (backend q)) = Some (Inr buf, iq)"
    and "free_ranges q (buf_rid buf) [(off, l)]"
    and "unat off + unat l < 2 ^ 64"
    and "unat off \<le> unat (buf_offset buf)"
    and "unat (buf_offset buf) + unat (buf_length buf) \<le> unat off + unat l"
  shows "\<exists>q'. debug_dequeue f q = Some (Inl CLEANQ_ERR_BUFFER_NOT_IN_USE, q') \<and>
              free_ranges q' (buf_rid buf) [(off, l)] \<and>
              dq_alloc (backend q') = dq_alloc (backend q)"
proof -
  have "buffer_in_bounds (buf_offset buf) (buf_length buf) off l"
    using assms(3,4,5) by (rule contained_buffer_in_bounds)
  with assms(1,2) show ?thesis by (rule debug_dequeue_node_in_bounds)
qed

lemma dbg_split_q_ranges: "free_ranges dbg_split_q 1 [(0, 2048), (4096, 4096)]"
  by (simp add: dbg_split_q_def dbg_registered_q_def dbg_defs)

theorem debug_enqueue_unowned_witness:
  "free_ranges dbg_split_q 1 [(0, 2048), (4096, 4096)] \<and>
   debug_enqueue loopback_f dbg_split_q 1 2048 2048 0 2048 0
     = Some (CLEANQ_ERR_INVALID_BUFFER_ARGS, dbg_split_q)"
  using debug_enqueue_unowned[where q=dbg_split_q and rid=1 and offset=2048 and len=2048
      and rs="[(0, 2048), (4096, 4096)]" and f=loopback_f and valid_data=0
      and valid_length=2048 and flags=0] dbg_split_q_ranges
  by simp

text \<open>
  C8, as stated, fails when the free-range list is empty: after the whole region of
  2048 bytes has been enqueued as one buffer, a second enqueue of that buffer, which
  is in flight and contained in no node, returns \<^verbatim>\<open>CLEANQ_ERR_BUFFER_ALREADY_IN_USE\<close>,
  not \<^verbatim>\<open>CLEANQ_ERR_INVALID_BUFFER_ARGS\<close>.
\<close>

theorem debug_enqueue_in_flight_counterexample:
  "debug_register loopback_f debug_q0 \<lparr>cap_vaddr = 0, cap_paddr = 0, cap_len = 2048\<rparr> 1
     = Some (CLEANQ_ERR_OK, dbg_small_q) \<and>
   debug_enqueue loopback_f dbg_small_q 1 0 2048 0 2048 0
     = Some (CLEANQ_ERR_OK, dbg_inflight_q) \<and>
   free_ranges dbg_inflight_q 1 [] \<and>
   debug_enqueue loopback_f dbg_inflight_q 1 0 2048 0 2048 0
     = Some (CLEANQ_ERR_BUFFER_ALREADY_IN_USE, dbg_inflight_q)"
  by (simp add: dbg_inflight_q_def dbg_small_q_def dbg_defs)

lemma dbg_owned_q_facts:
  "deq loopback_f (dq_q (backend dbg_owned_q)) =
     Some (Inr \<lparr>buf_offset = 2048, buf_length = 2048, buf_valid_data = 0,
                buf_valid_length = 2048, buf_flags = 0, buf_rid = 1\<rparr>,
           (dq_q (backend dbg_owned_q))\<lparr>backend := (backend (dq_q (backend dbg_owned_q)))
              \<lparr>lq_tail := 1, lq_num_ele := 0\<rparr>\<rparr>)"
  "free_ranges dbg_owned_q 1 [(0, 8192)]"
  by (simp_all add: dbg_owned_q_def dbg_defs)

lemma debug_dequeue_node_contains_example:
  "free_ranges dbg_owned_q 1 [(0, 8192)] \<and>
   (\<exists>q'. debug_dequeue loopback_f dbg_owned_q = Some (Inl CLEANQ_ERR_BUFFER_NOT_IN_USE, q') \<and>
         free_ranges q' 1 [(0, 8192)] \<and>
         dq_alloc (backend q') = dq_alloc (backend dbg_owned_q))"
  using debug_dequeue_node_contains[where f=loopback_f and q=dbg_owned_q and off=0 and l=8192,
      OF dbg_owned_q_facts(1)] dbg_owned_q_facts(2)
  by simp

text \<open>
  C10 (the code departs from the claim): \<^verbatim>\<open>buffer_in_bounds\<close> compares
  \<open>offset_b1 + len_b1\<close> with \<open>offset_b2 + len_b2\<close> in 64-bit arithmetic, and the sum
  of the node wraps around. In \<open>dbg_wrap_q2\<close>, reached by \<^verbatim>\<open>register\<close>, \<^verbatim>\<open>enqueue\<close>
  and \<^verbatim>\<open>dequeue\<close>, the free-range list of the known region 1 is the single node
  \<open>(2^64 - 1024, 2048)\<close>. The inner dequeue succeeds and returns the range
  \<open>(2^64 - 1024, 512)\<close>, which begins where the node begins and ends before the node
  ends, so the node fully contains it. The test of the code fails all the same
  (\<open>2^64 - 512\<close> is compared with the wrapped sum \<open>1024\<close>): the wrapper returns
  \<^verbatim>\<open>CLEANQ_ERR_OK\<close> with the buffer, where the claim gives
  \<^verbatim>\<open>CLEANQ_ERR_BUFFER_NOT_IN_USE\<close>, and the free-range list has changed: it has a second
  node \<open>(2^64 - 1024, 512)\<close>.
\<close>

theorem debug_dequeue_owned_wraps:
  "debug_register loopback_f (cleanq_debugq_create 0 dbg_wrap_inner)
     \<lparr>cap_vaddr = 0, cap_paddr = 0, cap_len = 2048\<rparr> 1 = Some (CLEANQ_ERR_OK, dbg_wrap_q0) \<and>
   debug_enqueue loopback_f dbg_wrap_q0 1 0 2048 0 2048 0 = Some (CLEANQ_ERR_OK, dbg_wrap_q1) \<and>
   debug_dequeue loopback_f dbg_wrap_q1 =
     Some (Inr \<lparr>buf_offset = 18446744073709550592, buf_length = 2048, buf_valid_data = 0,
                buf_valid_length = 2048, buf_flags = 0, buf_rid = 1\<rparr>, dbg_wrap_q2) \<and>
   free_ranges dbg_wrap_q2 1 [(18446744073709550592, 2048)] \<and>
   unat (18446744073709550592 :: 64 word) + unat (512 :: 64 word)
     \<le> unat (18446744073709550592 :: 64 word) + unat (2048 :: 64 word) \<and>
   \<not> buffer_in_bounds 18446744073709550592 512 18446744073709550592 2048 \<and>
   debug_dequeue loopback_f dbg_wrap_q2 =
     Some (Inr \<lparr>buf_offset = 18446744073709550592, buf_length = 512, buf_valid_data = 0,
                buf_valid_length = 512, buf_flags = 0, buf_rid = 1\<rparr>, dbg_wrap_q3) \<and>
   free_ranges dbg_wrap_q3 1 [(18446744073709550592, 2048), (18446744073709550592, 512)]"
  by (simp add: dbg_wrap_q3_def dbg_wrap_q2_def dbg_wrap_q1_def dbg_wrap_q0_def
        dbg_wrap_inner_def dbg_defs)

text \<open>
  C7 (the code departs from the claim): region 1 of 8192 bytes; the buffers
  (2048, 2048), (1024, 1024) and (4096, 4096) are enqueued in this order, which
  leaves the free-range list \<open>[(0, 1024)]\<close>. The dequeue returns the first buffer,
  (2048, 2048). Its boundaries touch no node (\<open>0 + 1024 \<noteq> 2048\<close>), yet
  \<^verbatim>\<open>insert_merge_buffer\<close> fuses it with the node: the list becomes \<open>[(0, 3072)]\<close>,
  where the claim gives \<open>[(0, 1024), (2048, 2048)]\<close>.
\<close>

theorem insert_merge_fuses_non_touching:
  "(case debug_enqueue loopback_f dbg_split_q 1 1024 1024 0 1024 0 of
      None \<Rightarrow> False
    | Some (e3, q3) \<Rightarrow>
        (case debug_enqueue loopback_f q3 1 4096 4096 0 4096 0 of
           None \<Rightarrow> False
         | Some (e4, q4) \<Rightarrow>
             e3 = CLEANQ_ERR_OK \<and> e4 = CLEANQ_ERR_OK \<and> free_ranges q4 1 [(0, 1024)] \<and>
             (case debug_dequeue loopback_f q4 of
                None \<Rightarrow> False
              | Some (r, q5) \<Rightarrow>
                  r = Inr \<lparr>buf_offset = 2048, buf_length = 2048, buf_valid_data = 0,
                           buf_valid_length = 2048, buf_flags = 0, buf_rid = 1\<rparr> \<and>
                  free_ranges q5 1 [(0, 3072)] \<and>
                  \<not> free_ranges q5 1 [(0, 1024), (2048, 2048)])))"
  by (simp add: dbg_split_q_def dbg_registered_q_def dbg_defs)

subsection \<open>Inline commands on the FF and IPC backends\<close>

text \<open>The state that the handlers of the source leave is the one of \<open>command_applied\<close>.\<close>

lemma handle_register_command_applied:
  "map_option snd (handle_register_command q cap rid) = command_applied q True cap rid"
  by (cases q)
     (auto simp: handle_register_command_def command_applied_def cleanq_add_region_def
        err_is_fail_def split: option.splits prod.splits)

lemma handle_deregister_command_applied:
  "map_option snd (handle_deregister_command q rid) = command_applied q False cap rid"
  by (cases q)
     (auto simp: handle_deregister_command_def command_applied_def cleanq_remove_region_def
        err_is_fail_def split: option.splits prod.splits)

lemma ff_dequeue_data_only:
  "ff_dequeue q = Some (Inr b, q') \<Longrightarrow> buf_flags b = 0"
proof (induction q rule: ff_dequeue.induct)
  case (1 q)
  show ?case
  proof (cases "ffq_impl_recv (rxq (backend q))")
    case None
    then show ?thesis using "1.prems" by (subst (asm) ff_dequeue.simps) simp
  next
    case (Some r)
    obtain m rx where r: "r = (m, rx)" by (cases r)
    show ?thesis
    proof (cases m)
      case None
      then show ?thesis using "1.prems" Some r by (subst (asm) ff_dequeue.simps) simp
    next
      case (Some msg)
      obtain a1 a2 a3 a4 a5 a6 where msg: "msg = (a1, a2, a3, a4, a5, a6)"
        by (cases msg) auto
      note recv = \<open>ffq_impl_recv (rxq (backend q)) = Some r\<close>[unfolded r Some msg]
      show ?thesis
      proof (cases "a6 = 0")
        case True
        then show ?thesis using "1.prems" recv
          by (subst (asm) ff_dequeue.simps) (auto simp: Let_def)
      next
        case False
        let ?q1 = "q\<lparr>backend := (backend q)\<lparr>rxq := rx\<rparr>\<rparr>"
        let ?h = "if a6 = FFQ_CMD_REGISTER
                  then handle_register_command ?q1
                         \<lparr>cap_vaddr = a2, cap_paddr = a4, cap_len = a3\<rparr> (ucast a1)
                  else handle_deregister_command ?q1 (ucast a1)"
        from "1.prems" recv False obtain err q2 where h: "?h = Some (err, q2)"
          and rec: "ff_dequeue q2 = Some (Inr b, q')"
          by (subst (asm) ff_dequeue.simps) (auto simp: Let_def split: option.splits)
        show ?thesis
          by (rule "1.IH"[OF recv refl refl refl refl refl refl refl refl refl False h refl rec])
      qed
    qed
  qed
qed


lemma ff_dequeue_command:
  assumes "ffq_impl_recv (rxq (backend q)) = Some (Some (a1, a2, a3, a4, a5, a6), rx)"
    and "a6 \<noteq> 0"
  shows "ff_dequeue q =
           Option.bind
             (command_applied (q\<lparr>backend := (backend q)\<lparr>rxq := rx\<rparr>\<rparr>) (a6 = FFQ_CMD_REGISTER)
                \<lparr>cap_vaddr = a2, cap_paddr = a4, cap_len = a3\<rparr> (ucast a1))
             ff_dequeue"
proof -
  let ?q1 = "q\<lparr>backend := (backend q)\<lparr>rxq := rx\<rparr>\<rparr>"
  let ?cap = "\<lparr>cap_vaddr = a2, cap_paddr = a4, cap_len = a3\<rparr>"
  let ?h = "if a6 = FFQ_CMD_REGISTER
            then handle_register_command ?q1 ?cap (ucast a1)
            else handle_deregister_command ?q1 (ucast a1)"
  have unf: "ff_dequeue q = (case ?h of None \<Rightarrow> None | Some (err, q2) \<Rightarrow> ff_dequeue q2)"
    using assms by (subst ff_dequeue.simps) (simp add: Let_def)
  have st: "map_option snd ?h = command_applied ?q1 (a6 = FFQ_CMD_REGISTER) ?cap (ucast a1)"
    using handle_register_command_applied[of ?q1 ?cap "ucast a1"]
      handle_deregister_command_applied[of ?q1 "ucast a1" ?cap]
    by (cases "a6 = FFQ_CMD_REGISTER") simp_all
  show ?thesis
    unfolding unf st[symmetric] by (cases ?h) (auto simp del: ff_dequeue.simps)
qed

lemma seqnum_store_keeps_payload:
  assumes "seqnum_store mem ack v = Some mem'" and "mem_cell mem a = Some d"
  shows "\<exists>d'. mem_cell mem' a = Some d' \<and> desc_cmd d' = desc_cmd d \<and> desc_buf d' = desc_buf d"
proof -
  from assms(1) obtain c where c: "mem_cell mem ack = Some c"
    and st: "mem_store mem ack (c\<lparr>desc_seq := v\<rparr>) = Some mem'"
    by (auto simp: seqnum_store_def split: option.splits)
  have m': "mem' = mem[ack div IPCQ_MESSAGE_SIZE := c\<lparr>desc_seq := v\<rparr>]"
    using st by (auto simp: mem_store_def split: if_splits)
  have cc: "c = mem ! (ack div IPCQ_MESSAGE_SIZE)"
    using c by (auto simp: mem_cell_def split: if_splits)
  have dd: "d = mem ! (a div IPCQ_MESSAGE_SIZE)" and ok: "a mod IPCQ_MESSAGE_SIZE = 0"
    "a div IPCQ_MESSAGE_SIZE < length mem"
    using assms(2) by (auto simp: mem_cell_def split: if_splits)
  show ?thesis
  proof (cases "a div IPCQ_MESSAGE_SIZE = ack div IPCQ_MESSAGE_SIZE")
    case True
    then have "mem_cell mem' a = Some (d\<lparr>desc_seq := v\<rparr>)"
      using ok m' cc dd by (simp add: mem_cell_def)
    then show ?thesis by (simp add: desc_buf_def)
  next
    case False
    then have "mem_cell mem' a = Some d"
      using ok m' dd by (simp add: mem_cell_def)
    then show ?thesis by simp
  qed
qed

lemma ipcq_rx_advance_fields:
  assumes "ipcq_rx_advance q mem = Some (q', mem')"
  shows "rx_descs (backend q') = rx_descs (backend q)"
    and "ipcq_slots (backend q') = ipcq_slots (backend q)"
    and "rx_seq (backend q') - 1 = rx_seq (backend q)"
    and "seqnum_store mem (rx_seq_ack (backend q)) (rx_seq (backend q) + 1) = Some mem'"
  using assms by (auto simp: ipcq_rx_advance_def split: option.splits)

lemma ipcq_dequeue_result:
  assumes "ipcq_dequeue q mem = Some y"
  shows "case y of
           (Inr b, q', mem') \<Rightarrow>
             (\<exists>d. mem_cell mem' (rx_descs (backend q') + IPCQ_MESSAGE_SIZE *
                      unat ((rx_seq (backend q') - 1) mod ipcq_slots (backend q'))) = Some d \<and>
                  desc_cmd d = 0 \<and> desc_buf d = b)
         | (Inl err, q', mem') \<Rightarrow> True"
  using assms
proof (induction rule: ipcq_dequeue.raw_induct[rotated 1, consumes 1, case_names step])
  case (step deq q mem y)
  show ?case
  proof (cases y)
    case (fields r q' mem')
    show ?thesis
    proof (cases r)
      case (Inl err)
      then show ?thesis using fields by simp
    next
      case (Inr b)
      from step(2) obtain can where can: "ipcq_can_recv q mem = Some can"
        by (auto split: option.splits)
      have cr: "can" using step(2) can fields Inr by (auto split: if_splits)
      from step(2) can cr obtain a tail where a: "ipcq_get_rx_desc_tail q = Some a"
        and tail: "mem_cell mem a = Some tail"
        by (auto split: option.splits)
      have nz: "ipcq_slots (backend q) \<noteq> 0"
        and aeq: "a = rx_descs (backend q) + IPCQ_MESSAGE_SIZE *
                        unat (rx_seq (backend q) mod ipcq_slots (backend q))"
        using a by (auto simp: ipcq_get_rx_desc_tail_def split: if_splits)
      show ?thesis
      proof (cases "desc_cmd tail = 0")
        case True
        from step(2) can cr a tail True fields Inr
        have adv: "ipcq_rx_advance q mem = Some (q', mem')" and b: "b = desc_buf tail"
          by (auto split: option.splits)
        from seqnum_store_keeps_payload[OF ipcq_rx_advance_fields(4)[OF adv] tail]
        obtain d' where "mem_cell mem' a = Some d'" "desc_cmd d' = desc_cmd tail"
          "desc_buf d' = desc_buf tail" by blast
        then show ?thesis
          using fields Inr True b aeq ipcq_rx_advance_fields(1,2,3)[OF adv] by simp
      next
        case False
        from step(2) can cr a tail False obtain q2 mem2 where "deq q2 mem2 = Some y"
          by (auto split: option.splits)
        then show ?thesis by (rule step(1))
      qed
    qed
  qed
qed

lemma ipcq_dequeue_data_only:
  assumes "ipcq_dequeue q mem = Some (Inr b, q', mem')"
  shows "\<exists>d. mem_cell mem' (rx_descs (backend q') + IPCQ_MESSAGE_SIZE *
                unat ((rx_seq (backend q') - 1) mod ipcq_slots (backend q'))) = Some d \<and>
             desc_cmd d = 0 \<and> desc_buf d = b"
  using ipcq_dequeue_result[OF assms] by simp

lemma ipcq_dequeue_command:
  assumes "ipcq_can_recv q mem = Some True" and "ipcq_get_rx_desc_tail q = Some a"
    and "mem_cell mem a = Some tail" and "desc_cmd tail \<noteq> 0"
  shows "ipcq_dequeue q mem =
           Option.bind
             (command_applied q (desc_cmd tail = IPCQ_CMD_REGISTER)
                \<lparr>cap_vaddr = desc_offset tail, cap_paddr = desc_valid_data tail,
                 cap_len = desc_length tail\<rparr> (desc_rid tail))
             (\<lambda>q1. Option.bind (ipcq_rx_advance q1 mem) (\<lambda>(q2, mem'). ipcq_dequeue q2 mem'))"
proof -
  let ?cap = "\<lparr>cap_vaddr = desc_offset tail, cap_paddr = desc_valid_data tail,
                cap_len = desc_length tail\<rparr>"
  let ?h = "ipcq_handle_command q tail"
  have unf: "ipcq_dequeue q mem =
      (case ?h of None \<Rightarrow> None
       | Some (err, q1) \<Rightarrow>
           (case ipcq_rx_advance q1 mem of None \<Rightarrow> None
            | Some (q2, mem') \<Rightarrow> ipcq_dequeue q2 mem'))"
    using assms by (subst ipcq_dequeue.simps) simp
  have st: "map_option snd ?h =
      command_applied q (desc_cmd tail = IPCQ_CMD_REGISTER) ?cap (desc_rid tail)"
    using handle_register_command_applied[of q ?cap "desc_rid tail"]
      handle_deregister_command_applied[of q "desc_rid tail" ?cap]
    by (cases "desc_cmd tail = IPCQ_CMD_REGISTER")
       (simp_all add: ipcq_handle_command_def handle_register_decommand_def)
  show ?thesis
    unfolding unf st[symmetric]
    by (cases ?h) (auto split: option.splits)
qed


text \<open>
  C9 (amended): a dequeue on the FF or IPC backend never returns a register or
  deregister command to the caller. Whenever the received slot or descriptor carries
  a command (FF: the flags word is not 0; IPC: \<^verbatim>\<open>cmd\<close> is not 0; code 1 is a
  registration, every other code a deregistration), the receiver applies it to its
  local region pool (\<^verbatim>\<open>region_pool_add_region_with_id\<close> for a registration,
  \<^verbatim>\<open>region_pool_remove_region\<close> for a deregistration), invokes the corresponding user
  callback if it is set and the pool operation succeeded, and re-enters the receive
  loop, so that only data descriptors surface: a buffer returned by the FF backend
  has the flags word 0, and a buffer returned by the IPC backend is the one of the
  descriptor just before the new \<open>rx_seq\<close>, whose \<^verbatim>\<open>cmd\<close> is 0.
\<close>

theorem dequeue_consumes_commands:
  "(ff_dequeue qf = Some (Inr bf, qf') \<longrightarrow> buf_flags bf = 0) \<and>
   (ffq_impl_recv (rxq (backend qf)) = Some (Some (ma, mb, mc, md, me, mf), rx) \<and> mf \<noteq> 0 \<longrightarrow>
      ff_dequeue qf =
        Option.bind
          (command_applied (qf\<lparr>backend := (backend qf)\<lparr>rxq := rx\<rparr>\<rparr>) (mf = FFQ_CMD_REGISTER)
             \<lparr>cap_vaddr = mb, cap_paddr = md, cap_len = mc\<rparr> (ucast ma))
          ff_dequeue) \<and>
   (ipcq_dequeue qi mem = Some (Inr bi, qi', mem') \<longrightarrow>
      (\<exists>d. mem_cell mem' (rx_descs (backend qi') + IPCQ_MESSAGE_SIZE *
                unat ((rx_seq (backend qi') - 1) mod ipcq_slots (backend qi'))) = Some d \<and>
           desc_cmd d = 0 \<and> desc_buf d = bi)) \<and>
   (ipcq_can_recv qi mem = Some True \<and> ipcq_get_rx_desc_tail qi = Some a \<and>
    mem_cell mem a = Some tail \<and> desc_cmd tail \<noteq> 0 \<longrightarrow>
      ipcq_dequeue qi mem =
        Option.bind
          (command_applied qi (desc_cmd tail = IPCQ_CMD_REGISTER)
             \<lparr>cap_vaddr = desc_offset tail, cap_paddr = desc_valid_data tail,
              cap_len = desc_length tail\<rparr> (desc_rid tail))
          (\<lambda>q1. Option.bind (ipcq_rx_advance q1 mem)
                   (\<lambda>(q2, mem2). ipcq_dequeue q2 mem2)))"
  using ff_dequeue_data_only[of qf bf qf'] ff_dequeue_command[of qf ma mb mc md me mf rx]
    ipcq_dequeue_data_only[of qi mem bi qi' mem'] ipcq_dequeue_command[of qi mem a tail]
  by (simp del: ff_dequeue.simps)

lemmas ffq_eval = ffq_impl_recv_def ffq_impl_can_recv_def ffq_impl_get_slot_def
  ffq_fresh_def ffq_pending_def ffq_register_pending_def ffq_register_clash_def
  cleanq_init_def FFQ_DEFAULT_SIZE_def empty_slot_def sent_slot_def register_slot_def
  FFQ_SLOT_EMPTY_def FFQ_CMD_REGISTER_def region_pool_init_def INIT_POOL_SIZE_def
  handle_register_command_def handle_deregister_command_def cleanq_add_region_def
  cleanq_remove_region_def region_pool_add_region_with_id_def region_pool_remove_region_def
  pool_at_def slot_index_def err_is_fail_def alias_q_def loopback_queue_create_def Let_def

text \<open>
  C9, as stated, fails where it says that the callback is invoked whenever it is set:
  the handlers return before the callback when the pool operation fails. Here a
  register command for the region id 5 arrives at a queue whose pool slot 5 is
  occupied and whose register callback is set; the dequeue consumes the command and
  leaves the pool and the callback trace as they were.
\<close>

theorem ff_dequeue_callback_skipped_counterexample:
  "callbacks_reg ffq_register_clash = Some cb_ok \<and>
   cb_trace ffq_register_clash = [] \<and>
   ff_dequeue ffq_register_clash =
     Some (Inl CLEANQ_ERR_QUEUE_EMPTY,
           ffq_register_clash\<lparr>backend := (backend ffq_register_clash)
             \<lparr>rxq := (rxq (backend ffq_register_clash))
                \<lparr>chan_slots := (replicate 64 empty_slot)
                     [0 := register_slot\<lparr>data0 := FFQ_SLOT_EMPTY\<rparr>]\<rparr>\<rparr>\<rparr>)"
  by (simp add: ffq_eval)


lemmas ipcq_eval = ipcq_can_recv_def ipcq_get_rx_desc_tail_def ipcq_rx_advance_def
  ipcq_handle_command_def ipcq_enqueue_def ipcq_register_def ipcq_enqueue_internal_def
  ipcq_can_send_def ipcq_get_tx_desc_head_def seqnum_value_def seqnum_store_def
  mem_cell_def mem_store_def IPCQ_MESSAGE_SIZE_def IPCQ_CMD_REGISTER_def
  creator_q_def joiner_q_def zero_mem_def zero_desc_def desc_buf_def
  ipc_data_mem_def ipc_register_mem_def cleanq_init_def
  handle_register_command_def handle_register_decommand_def handle_deregister_command_def
  cleanq_add_region_def cleanq_remove_region_def region_pool_add_region_with_id_def
  region_pool_remove_region_def region_pool_init_def INIT_POOL_SIZE_def
  pool_at_def slot_index_def err_is_fail_def command_applied_def

lemma ipc_data_run:
  "ipcq_dequeue joiner_q ipc_data_mem =
     Some (Inr \<lparr>buf_offset = 0, buf_length = 2048, buf_valid_data = 0,
                buf_valid_length = 2048, buf_flags = 0, buf_rid = 1\<rparr>,
           joiner_q\<lparr>backend := (backend joiner_q)\<lparr>rx_seq := 2\<rparr>\<rparr>,
           ipc_data_mem[0 := zero_desc\<lparr>desc_seq := 2\<rparr>])"
  by (subst ipcq_dequeue.simps) (simp add: ipcq_eval)


lemma ipc_register_run:
  "ipcq_dequeue joiner_q ipc_register_mem =
     Some (Inl CLEANQ_ERR_QUEUE_EMPTY,
           joiner_q\<lparr>pool := (pool joiner_q)\<lparr>
                rp_pool := (replicate 16 None)
                  [7 := Some \<lparr>region_id = 7, region_base_addr = 0, region_len = 4096\<rparr>],
                rp_num_regions := 1\<rparr>,
             backend := (backend joiner_q)\<lparr>rx_seq := 2\<rparr>\<rparr>,
           ipc_register_mem[0 := zero_desc\<lparr>desc_seq := 2\<rparr>])"
  by (subst ipcq_dequeue.simps, simp add: ipcq_eval, subst ipcq_dequeue.simps)
     (simp add: ipcq_eval)

lemma ff_data_run:
  "ff_dequeue ffq_pending =
     Some (Inr \<lparr>buf_offset = 0, buf_length = 2048, buf_valid_data = 0,
                buf_valid_length = 2048, buf_flags = 0, buf_rid = 1\<rparr>,
           ffq_pending\<lparr>backend := (backend ffq_pending)
             \<lparr>rxq := (rxq (backend ffq_pending))
                \<lparr>chan_slots := (replicate 64 empty_slot)
                     [0 := sent_slot\<lparr>data0 := FFQ_SLOT_EMPTY\<rparr>]\<rparr>\<rparr>\<rparr>)"
  by (simp add: ffq_eval)

lemma ff_register_run:
  "ff_dequeue ffq_register_pending =
     Some (Inl CLEANQ_ERR_QUEUE_EMPTY,
           ffq_register_pending\<lparr>
             pool := pool alias_q,
             cb_trace := [CbRegister \<lparr>cap_vaddr = 0, cap_paddr = 0, cap_len = 4096\<rparr> 5],
             backend := (backend ffq_register_pending)
               \<lparr>rxq := (rxq (backend ffq_register_pending))
                  \<lparr>chan_slots := (replicate 64 empty_slot)
                       [0 := register_slot\<lparr>data0 := FFQ_SLOT_EMPTY\<rparr>]\<rparr>\<rparr>\<rparr>)"
  by (simp add: ffq_eval cb_ok_def)


lemma ipc_register_tail:
  "ipcq_can_recv joiner_q ipc_register_mem = Some True"
  "ipcq_get_rx_desc_tail joiner_q = Some 128"
  "mem_cell ipc_register_mem 128 =
     Some \<lparr>desc_seq = 1, desc_rid = 7, desc_pad = 0, desc_offset = 0, desc_length = 4096,
           desc_valid_data = 0, desc_valid_length = 0, desc_flags = 0,
           desc_cmd = IPCQ_CMD_REGISTER\<rparr>"
  by (simp_all add: ipcq_eval)

lemma ff_register_recv:
  "ffq_impl_recv (rxq (backend ffq_register_pending)) =
     Some (Some (5, 0, 4096, 0, 0, 1),
           (rxq (backend ffq_register_pending))
              \<lparr>chan_slots := (replicate 64 empty_slot)
                   [0 := register_slot\<lparr>data0 := FFQ_SLOT_EMPTY\<rparr>]\<rparr>)"
  by (simp add: ffq_eval)

theorem dequeue_consumes_commands_witness:
  "(\<exists>q'. ff_dequeue ffq_pending =
           Some (Inr \<lparr>buf_offset = 0, buf_length = 2048, buf_valid_data = 0,
                      buf_valid_length = 2048, buf_flags = 0, buf_rid = 1\<rparr>, q')) \<and>
   (\<exists>rx. ffq_impl_recv (rxq (backend ffq_register_pending))
            = Some (Some (5, 0, 4096, 0, 0, 1), rx)) \<and>
   (\<exists>q'. ff_dequeue ffq_register_pending = Some (Inl CLEANQ_ERR_QUEUE_EMPTY, q') \<and>
         pool q' = pool alias_q \<and>
         cb_trace q' = [CbRegister \<lparr>cap_vaddr = 0, cap_paddr = 0, cap_len = 4096\<rparr> 5]) \<and>
   (\<exists>q' mem' d. ipcq_dequeue joiner_q ipc_data_mem =
           Some (Inr \<lparr>buf_offset = 0, buf_length = 2048, buf_valid_data = 0,
                      buf_valid_length = 2048, buf_flags = 0, buf_rid = 1\<rparr>, q', mem') \<and>
         mem_cell mem' (rx_descs (backend q') + IPCQ_MESSAGE_SIZE *
             unat ((rx_seq (backend q') - 1) mod ipcq_slots (backend q'))) = Some d \<and>
         desc_cmd d = 0) \<and>
   ipcq_can_recv joiner_q ipc_register_mem = Some True \<and>
   (\<exists>q' mem'. ipcq_dequeue joiner_q ipc_register_mem = Some (Inl CLEANQ_ERR_QUEUE_EMPTY, q', mem') \<and>
         rp_pool (pool q') ! 7 =
           Some \<lparr>region_id = 7, region_base_addr = 0, region_len = 4096\<rparr>)"
proof -
  let ?b = "\<lparr>buf_offset = 0, buf_length = 2048, buf_valid_data = 0,
             buf_valid_length = 2048, buf_flags = 0, buf_rid = 1\<rparr>"
  let ?rx = "(rxq (backend ffq_register_pending))
              \<lparr>chan_slots := (replicate 64 empty_slot)
                   [0 := register_slot\<lparr>data0 := FFQ_SLOT_EMPTY\<rparr>]\<rparr>"
  let ?tail = "\<lparr>desc_seq = 1, desc_rid = 7, desc_pad = 0, desc_offset = 0, desc_length = 4096,
           desc_valid_data = 0, desc_valid_length = 0, desc_flags = 0,
           desc_cmd = IPCQ_CMD_REGISTER\<rparr>"
  note inst1 = dequeue_consumes_commands[where qf=ffq_register_pending and ma=5 and mb=0
      and mc=4096 and md=0 and me=0 and mf=1 and rx="?rx"
      and qi=joiner_q and mem=ipc_data_mem and bi="?b"
      and qi'="joiner_q\<lparr>backend := (backend joiner_q)\<lparr>rx_seq := 2\<rparr>\<rparr>"
      and mem'="ipc_data_mem[0 := zero_desc\<lparr>desc_seq := 2\<rparr>]"]
  note inst2 = dequeue_consumes_commands[where qf=ffq_pending and bf="?b"
      and qi=joiner_q and mem=ipc_register_mem and a=128 and tail="?tail"]
  have c1: "\<exists>q'. ff_dequeue ffq_pending = Some (Inr ?b, q')"
    using ff_data_run by blast
  have c2: "\<exists>rx. ffq_impl_recv (rxq (backend ffq_register_pending))
            = Some (Some (5, 0, 4096, 0, 0, 1), rx)"
    using ff_register_recv by blast
  have "ff_dequeue ffq_register_pending =
        Option.bind
          (command_applied (ffq_register_pending\<lparr>backend := (backend ffq_register_pending)\<lparr>rxq := ?rx\<rparr>\<rparr>)
             (1 = FFQ_CMD_REGISTER)
             \<lparr>cap_vaddr = 0, cap_paddr = 0, cap_len = 4096\<rparr> (ucast (5 :: 64 word)))
          ff_dequeue"
    using inst1 ff_register_recv by (simp del: ff_dequeue.simps)
  then have c3: "\<exists>q'. ff_dequeue ffq_register_pending = Some (Inl CLEANQ_ERR_QUEUE_EMPTY, q') \<and>
         pool q' = pool alias_q \<and>
         cb_trace q' = [CbRegister \<lparr>cap_vaddr = 0, cap_paddr = 0, cap_len = 4096\<rparr> 5]"
    using ff_register_run by simp
  have c4: "\<exists>q' mem' d. ipcq_dequeue joiner_q ipc_data_mem = Some (Inr ?b, q', mem') \<and>
         mem_cell mem' (rx_descs (backend q') + IPCQ_MESSAGE_SIZE *
             unat ((rx_seq (backend q') - 1) mod ipcq_slots (backend q'))) = Some d \<and>
         desc_cmd d = 0"
    using inst1 ipc_data_run by blast
  have "ipcq_dequeue joiner_q ipc_register_mem =
        Option.bind
          (command_applied joiner_q (desc_cmd ?tail = IPCQ_CMD_REGISTER)
             \<lparr>cap_vaddr = desc_offset ?tail, cap_paddr = desc_valid_data ?tail,
              cap_len = desc_length ?tail\<rparr> (desc_rid ?tail))
          (\<lambda>q1. Option.bind (ipcq_rx_advance q1 ipc_register_mem)
                   (\<lambda>(q2, mem2). ipcq_dequeue q2 mem2))"
    using inst2 ipc_register_tail by (simp add: IPCQ_CMD_REGISTER_def)
  then have c5: "\<exists>q' mem'. ipcq_dequeue joiner_q ipc_register_mem
           = Some (Inl CLEANQ_ERR_QUEUE_EMPTY, q', mem') \<and>
         rp_pool (pool q') ! 7 =
           Some \<lparr>region_id = 7, region_base_addr = 0, region_len = 4096\<rparr>"
    using ipc_register_run by (simp add: joiner_q_def cleanq_init_def)
  show ?thesis using c1 c2 c3 c4 c5 ipc_register_tail(1) by blast
qed

end
